theory Spec2Isabelle
  imports Complex_Main
begin

section \<open>Numbers\<close>

text \<open>
  The program computes with JavaScript numbers. They are modelled as real numbers:
  every arithmetic operation is exact, and rounding, NaN and the infinities are outside
  the model. \<open>Math.log\<close>, \<open>Math.sqrt\<close>, \<open>Math.exp\<close> and \<open>Math.abs\<close> are
  \<open>ln\<close>, \<open>sqrt\<close>, \<open>exp\<close> and \<open>abs\<close> on the reals. A parameter that may be \<open>null\<close>
  or \<open>undefined\<close> is an \<open>option\<close>.
\<close>

section \<open>The pricing functions of src/api/index.js\<close>

text \<open>\<open>normalCDF(x)\<close>, lines 26 to 39: the source rebinds \<open>x\<close> to
  \<open>Math.abs(x) / Math.sqrt(2)\<close>; the rebound value is \<open>x'\<close> here.\<close>

definition normalCDF :: "real \<Rightarrow> real" where
  "normalCDF x =
     (let sign = (if x \<ge> 0 then 1 else -1);
          x' = \<bar>x\<bar> / sqrt 2;
          a1 = 0.254829592;
          a2 = -0.284496736;
          a3 = 1.421413741;
          a4 = -1.453152027;
          a5 = 1.061405429;
          p = 0.3275911;
          t = 1.0 / (1.0 + p * x');
          y = 1.0 - (((((a5 * t + a4) * t) + a3) * t + a2) * t + a1) * t * exp (- x' * x')
      in 0.5 * (1.0 + sign * y))"

text \<open>\<open>calculateDelta\<close>, lines 41 to 57. The option type is the string the caller
  passes; every string other than \<open>'call'\<close> takes the put branch.\<close>

definition calculateDelta :: "real \<Rightarrow> real \<Rightarrow> real \<Rightarrow> real \<Rightarrow> real \<Rightarrow> string \<Rightarrow> real" where
  "calculateDelta currentPrice strikePrice timeToExpiry riskFreeRate volatility optionType =
     (if timeToExpiry \<le> 0 then
        (if optionType = ''call'' then (if currentPrice > strikePrice then 1 else 0)
         else (if currentPrice < strikePrice then -1 else 0))
      else
        (let S = currentPrice; K = strikePrice; T = timeToExpiry; r = riskFreeRate;
             sigma = volatility;
             d1 = (ln (S / K) + (r + 0.5 * sigma * sigma) * T) / (sigma * sqrt T)
         in if optionType = ''call'' then normalCDF d1 else normalCDF d1 - 1))"

record probability_estimate =
  original :: real
  enhanced :: real

text \<open>\<open>calculateAssignmentProbability\<close>, lines 59 to 114. \<open>enhancedProb\<close> is
  reassigned four times; \<open>e0\<close> to \<open>e4\<close> are its successive values.\<close>

definition calculateAssignmentProbability ::
  "real \<Rightarrow> real \<Rightarrow> real \<Rightarrow> real \<Rightarrow> real \<Rightarrow> real option \<Rightarrow> probability_estimate" where
  "calculateAssignmentProbability currentPrice strikePrice timeToExpiry riskFreeRate volatility
       marketDelta =
     (if timeToExpiry \<le> 0 then
        \<lparr>original = (if strikePrice \<le> currentPrice then 1 else 0),
         enhanced = (if strikePrice \<le> currentPrice then 1 else 0)\<rparr>
      else
        (let S = currentPrice; K = strikePrice; T = timeToExpiry; r = riskFreeRate;
             sigma = volatility;
             d1 = (ln (S / K) + (r + 0.5 * sigma * sigma) * T) / (sigma * sqrt T);
             d2 = d1 - sigma * sqrt T;
             originalProb = normalCDF d2;
             e0 = (case marketDelta of
                     None \<Rightarrow> originalProb
                   | Some md \<Rightarrow> (originalProb * 0.7) + (\<bar>md\<bar> * 0.3));
             defaultVol = 0.25;
             volAdjustment = min 2.0 (max 0.5 (sigma / defaultVol));
             e1 = e0 * volAdjustment;
             e2 = (if T < 7 / 365
                   then e1 * (1 + (0.1 * (7 / 365 - T) / (7 / 365)))
                   else e1);
             moneyness = S / K;
             e3 = (if moneyness > 1.05 then e2 * 1.1
                   else if moneyness > 0.95 \<and> moneyness \<le> 1.05 then e2 * 1.05
                   else e2);
             e4 = max 0 (min 1 e3)
         in \<lparr>original = originalProb, enhanced = e4\<rparr>))"

text \<open>\<open>calculateGoalBasedScore\<close>, lines 116 to 153, and the same function of the
  second server script (src/client/src/App.vue, lines 238 to 275). The two differ in the
  constants \<open>weeklyTarget\<close> and \<open>biweeklyTarget\<close> only, which are parameters of the
  common body. \<open>annualizedReturn\<close> and \<open>targetType\<close> are computed and never read;
  \<open>strike\<close> is a parameter the body does not use.\<close>

definition goalBasedScore ::
  "real \<Rightarrow> real \<Rightarrow> real \<Rightarrow> real \<Rightarrow> real \<Rightarrow> real \<Rightarrow> real \<Rightarrow> real" where
  "goalBasedScore weeklyTarget biweeklyTarget premium assignmentProbability strike currentPrice
       daysToExpiry =
     (let returnPercent = premium / currentPrice;
          meetsTarget =
            (if daysToExpiry \<le> 8 then returnPercent \<ge> weeklyTarget
             else if daysToExpiry \<le> 16 then returnPercent \<ge> biweeklyTarget
             else False)
      in if \<not> meetsTarget then -1
         else
           (let baseScore = returnPercent / (assignmentProbability / 100 + 0.001);
                highProbabilityPenalty = (if assignmentProbability > 30 then 0.5 else 1)
            in baseScore * highProbabilityPenalty))"

definition calculateGoalBasedScore :: "real \<Rightarrow> real \<Rightarrow> real \<Rightarrow> real \<Rightarrow> real \<Rightarrow> real" where
  "calculateGoalBasedScore = goalBasedScore 0.001 0.002"

section \<open>The pricing functions of the second server script\<close>

text \<open>The script after the Vue component in src/client/src/App.vue has the same
  \<open>normalCDF\<close>, no \<open>calculateDelta\<close>, and a \<open>calculateAssignmentProbability\<close>
  (lines 222 to 236) that returns one number.\<close>

definition calculateAssignmentProbability_srv ::
  "real \<Rightarrow> real \<Rightarrow> real \<Rightarrow> real \<Rightarrow> real \<Rightarrow> real" where
  "calculateAssignmentProbability_srv currentPrice strikePrice timeToExpiry riskFreeRate
       volatility =
     (if timeToExpiry \<le> 0 then (if strikePrice \<le> currentPrice then 1 else 0)
      else
        (let S = currentPrice; K = strikePrice; T = timeToExpiry; r = riskFreeRate;
             sigma = volatility;
             d1 = (ln (S / K) + (r + 0.5 * sigma * sigma) * T) / (sigma * sqrt T);
             d2 = d1 - sigma * sqrt T
         in normalCDF d2))"

definition calculateGoalBasedScore_srv :: "real \<Rightarrow> real \<Rightarrow> real \<Rightarrow> real \<Rightarrow> real \<Rightarrow> real" where
  "calculateGoalBasedScore_srv = goalBasedScore 0.0025 0.005"

section \<open>The refinement steps in the words of the specification\<close>

text \<open>The Black-Scholes terms and the four adjustment steps as the specification states
  them, to be compared with what \<open>calculateAssignmentProbability\<close> computes.\<close>

definition bs_d1 :: "real \<Rightarrow> real \<Rightarrow> real \<Rightarrow> real \<Rightarrow> real \<Rightarrow> real" where
  "bs_d1 spot strikePrice timeToExpiry riskFreeRate volatility =
     (ln (spot / strikePrice) + (riskFreeRate + 0.5 * volatility\<^sup>2) * timeToExpiry)
       / (volatility * sqrt timeToExpiry)"

definition bs_d2 :: "real \<Rightarrow> real \<Rightarrow> real \<Rightarrow> real \<Rightarrow> real \<Rightarrow> real" where
  "bs_d2 spot strikePrice timeToExpiry riskFreeRate volatility =
     bs_d1 spot strikePrice timeToExpiry riskFreeRate volatility - volatility * sqrt timeToExpiry"

definition clamp :: "real \<Rightarrow> real \<Rightarrow> real \<Rightarrow> real" where
  "clamp x lo hi = (if x < lo then lo else if hi < x then hi else x)"

definition deltaBlend :: "real \<Rightarrow> real \<Rightarrow> real" where
  "deltaBlend p marketDelta = 0.7 * p + 0.3 * \<bar>marketDelta\<bar>"

definition volatilityScaling :: "real \<Rightarrow> real \<Rightarrow> real" where
  "volatilityScaling volatility p = p * clamp (volatility / 0.25) 0.5 2.0"

definition shortDatedBoost :: "real \<Rightarrow> real \<Rightarrow> real" where
  "shortDatedBoost timeToExpiry p =
     (if timeToExpiry < 7 / 365 then p * (1 + 0.1 * (7 / 365 - timeToExpiry) / (7 / 365))
      else p)"

definition moneynessBoost :: "real \<Rightarrow> real \<Rightarrow> real \<Rightarrow> real" where
  "moneynessBoost spot strikePrice p =
     (if spot / strikePrice > 1.05 then p * 1.10
      else if 0.95 < spot / strikePrice \<and> spot / strikePrice \<le> 1.05 then p * 1.05
      else p * 1)"

definition refined :: "real \<Rightarrow> real \<Rightarrow> real \<Rightarrow> real \<Rightarrow> real \<Rightarrow> real \<Rightarrow> real" where
  "refined p marketDelta volatility timeToExpiry spot strikePrice =
     clamp (moneynessBoost spot strikePrice
              (shortDatedBoost timeToExpiry
                 (volatilityScaling volatility (deltaBlend p marketDelta)))) 0 1"

section \<open>Values the handlers publish\<close>

text \<open>
  \<open>Number.prototype.toFixed(f)\<close> prints a decimal string with \<open>f\<close> fraction digits: a
  minus sign when the number is below zero, then the integer \<open>n\<close> for which
  \<open>n / 10\<^sup>f\<close> is closest to the magnitude, the larger one of two. \<open>Dec neg f n\<close>
  stands for that string; \<open>NA\<close> is the string \<open>'N/A'\<close>. (The exponent notation that
  \<open>toFixed\<close> falls back to for magnitudes of \<open>1e21\<close> and more is not modelled.)
  \<open>parseFloat\<close> reads the number back, and gives \<open>NaN\<close>, here \<open>None\<close>, on \<open>'N/A'\<close>.
\<close>

datatype jstext = NA | Dec bool nat nat

definition toFixed :: "real \<Rightarrow> nat \<Rightarrow> jstext" where
  "toFixed x f =
     (if x < 0 then Dec True f (nat \<lfloor>- x * 10 ^ f + 1 / 2\<rfloor>)
      else Dec False f (nat \<lfloor>x * 10 ^ f + 1 / 2\<rfloor>))"

fun parseFloat :: "jstext \<Rightarrow> real option" where
  "parseFloat NA = None"
| "parseFloat (Dec neg f n) = Some ((if neg then - 1 else 1) * (real n / 10 ^ f))"

text \<open>\<open>a - b\<close> on numbers either of which may be \<open>NaN\<close>.\<close>

fun minus_nan :: "real option \<Rightarrow> real option \<Rightarrow> real option" where
  "minus_nan (Some a) (Some b) = Some (a - b)"
| "minus_nan _ _ = None"

text \<open>\<open>Math.round\<close> rounds to the nearest integer, a half upwards.\<close>

definition math_round :: "real \<Rightarrow> int" where
  "math_round x = \<lfloor>x + 1 / 2\<rfloor>"

text \<open>
  \<open>Array.prototype.sort(comparefn)\<close> is stable, and a comparator result that is \<open>NaN\<close>
  counts as \<open>0\<close>. For a comparator that orders the elements consistently the result is
  fixed by the language: ascending, equal elements in their earlier order. That is what
  the insertion sort \<open>sort_by\<close> returns. (For an inconsistent comparator the language
  leaves the order to the implementation.)
\<close>

definition compare_result :: "real option \<Rightarrow> real" where
  "compare_result v = (case v of None \<Rightarrow> 0 | Some r \<Rightarrow> r)"

fun insert_by :: "('a \<Rightarrow> 'a \<Rightarrow> real option) \<Rightarrow> 'a \<Rightarrow> 'a list \<Rightarrow> 'a list" where
  "insert_by comparefn x [] = [x]"
| "insert_by comparefn x (y # ys) =
     (if compare_result (comparefn x y) \<le> 0 then x # y # ys
      else y # insert_by comparefn x ys)"

definition sort_by :: "('a \<Rightarrow> 'a \<Rightarrow> real option) \<Rightarrow> 'a list \<Rightarrow> 'a list" where
  "sort_by comparefn xs = foldr (insert_by comparefn) xs []"

text \<open>The truth value of \<open>v\<close> and \<open>v || d\<close>, for a number that may be absent: absent
  and \<open>0\<close> are falsy. \<open>number v\<close> is the number in a field that was found truthy.\<close>

definition truthy :: "real option \<Rightarrow> bool" where
  "truthy v = (case v of None \<Rightarrow> False | Some x \<Rightarrow> x \<noteq> 0)"

definition or_else :: "real option \<Rightarrow> real \<Rightarrow> real" where
  "or_else v d = (case v of None \<Rightarrow> d | Some x \<Rightarrow> if x = 0 then d else x)"

definition number :: "real option \<Rightarrow> real" where
  "number v = (case v of None \<Rightarrow> 0 | Some x \<Rightarrow> x)"

section \<open>The records of the option chain\<close>

text \<open>A contract as the chain provider returns it. The fields the handlers copy without
  reading them are kept as they come.\<close>

record raw_contract =
  contractSymbol :: string
  strike :: real
  lastPrice :: "real option"
  bid :: "real option"
  ask :: "real option"
  change :: "real option"
  percentChange :: "real option"
  volume :: "real option"
  openInterest :: "real option"
  impliedVolatility :: "real option"
  inTheMoney :: bool

text \<open>The object \<open>mapOption\<close> returns in the second server script, and the three more
  fields of the one in src/api/index.js.\<close>

record scored_contract = raw_contract +
  otmPercent :: jstext
  assignmentProbability :: jstext
  premium :: jstext
  returnPercent :: jstext
  goalScore :: jstext
  returnAssignmentRatio :: jstext
  meetsTarget :: bool
  targetType :: string
  daysToExpiry :: int

record scored_contract_api = scored_contract +
  assignmentProbabilityEnhanced :: jstext
  delta :: jstext
  returnAssignmentRatioEnhanced :: jstext

text \<open>\<open>chain?.options?.[0]\<close>: the group of contracts of one expiration, with its date
  (milliseconds since the epoch) and its calls, either of which may be absent. The field
  \<open>calls\<close> of the group is \<open>group_calls\<close> here; \<open>calls\<close> names the field of the
  result.\<close>

record option_group =
  expirationDate :: "int option"
  group_calls :: "raw_contract list option"

text \<open>What \<open>yf.options(symbol, {date})\<close> resolves to, when it is an object.\<close>

record chain =
  underlyingSymbol :: string
  options :: "option_group list"

text \<open>A piece of the template string \<open>bestOptionReason\<close>: literal text, or the text of
  an interpolated field.\<close>

datatype fragment = Lit string | Field jstext

record 'c expiration_result =
  expiration :: int
  calls :: "'c list"
  bestOption :: "'c option"
  bestOptionReason :: "fragment list"
  hasQualifyingOptions :: bool

section \<open>The chain selector of src/api/index.js\<close>

text \<open>\<open>mapOption\<close>, lines 262 to 325. \<open>target\<close> is the expiration in milliseconds;
  \<open>now1\<close> and \<open>now2\<close> are the two readings of \<open>Date.now()\<close> the function takes.\<close>

definition mapOption :: "real \<Rightarrow> int \<Rightarrow> int \<Rightarrow> int \<Rightarrow> raw_contract \<Rightarrow> scored_contract_api" where
  "mapOption currentPrice target now1 now2 o' =
     (let timeToExpiry = real_of_int (target - now1) / (1000 * 3600 * 24 * 365);
          daysToExpiry = real_of_int (target - now2) / (1000 * 3600 * 24);
          riskFreeRate = 0.045;
          volatility = or_else (impliedVolatility o') 0.25;
          theoreticalDelta = calculateDelta currentPrice (strike o') timeToExpiry riskFreeRate
                               volatility ''call'';
          assignmentProbs = calculateAssignmentProbability currentPrice (strike o')
                              timeToExpiry riskFreeRate volatility (Some theoreticalDelta);
          premium = (if truthy (bid o') \<and> truthy (ask o')
                     then (number (bid o') + number (ask o')) / 2
                     else or_else (lastPrice o') 0);
          returnPercent = (if premium > 0 then toFixed ((premium / currentPrice) * 100) 3
                           else Dec False 3 0);
          goalScore = calculateGoalBasedScore premium (enhanced assignmentProbs * 100)
                        (strike o') currentPrice daysToExpiry;
          originalRatio = (if premium > 0 \<and> original assignmentProbs > 0
                           then toFixed (((premium / currentPrice) * 100)
                                           / (original assignmentProbs * 100)) 3
                           else NA);
          enhancedRatio = (if premium > 0 \<and> enhanced assignmentProbs > 0
                           then toFixed (((premium / currentPrice) * 100)
                                           / (enhanced assignmentProbs * 100)) 3
                           else NA);
          weeklyReturn = (if premium > 0 then (premium / currentPrice) * 100 else 0);
          meetsWeeklyTarget = (daysToExpiry \<le> 8 \<and> weeklyReturn \<ge> 0.1);
          meetsBiweeklyTarget = (daysToExpiry \<le> 16 \<and> weeklyReturn \<ge> 0.2);
          meetsTarget = (meetsWeeklyTarget \<or> meetsBiweeklyTarget);
          targetType = (if meetsWeeklyTarget then ''weekly''
                        else if meetsBiweeklyTarget then ''bi-weekly'' else ''none'')
      in \<lparr>contractSymbol = contractSymbol o',
          strike = strike o',
          lastPrice = lastPrice o',
          bid = bid o',
          ask = ask o',
          change = change o',
          percentChange = percentChange o',
          volume = volume o',
          openInterest = openInterest o',
          impliedVolatility = impliedVolatility o',
          inTheMoney = inTheMoney o',
          otmPercent = toFixed ((strike o' - currentPrice) / currentPrice * 100) 2,
          assignmentProbability = toFixed (original assignmentProbs * 100) 1,
          premium = toFixed premium 2,
          returnPercent = returnPercent,
          goalScore = (if goalScore > 0 then toFixed goalScore 3 else enhancedRatio),
          returnAssignmentRatio = originalRatio,
          meetsTarget = meetsTarget,
          targetType = targetType,
          daysToExpiry = math_round daysToExpiry,
          assignmentProbabilityEnhanced = toFixed (enhanced assignmentProbs * 100) 1,
          delta = toFixed (theoreticalDelta * 100) 1,
          returnAssignmentRatioEnhanced = enhancedRatio\<rparr>)"

section \<open>The chain selector of the second server script\<close>

text \<open>\<open>mapOption\<close>, src/client/src/App.vue, lines 422 to 473.\<close>

definition mapOption_srv :: "real \<Rightarrow> int \<Rightarrow> int \<Rightarrow> int \<Rightarrow> raw_contract \<Rightarrow> scored_contract" where
  "mapOption_srv currentPrice target now1 now2 o' =
     (let timeToExpiry = real_of_int (target - now1) / (1000 * 3600 * 24 * 365);
          daysToExpiry = real_of_int (target - now2) / (1000 * 3600 * 24);
          riskFreeRate = 0.045;
          volatility = or_else (impliedVolatility o') 0.25;
          assignmentProb = calculateAssignmentProbability_srv currentPrice (strike o')
                             timeToExpiry riskFreeRate volatility;
          premium = (if truthy (bid o') \<and> truthy (ask o')
                     then (number (bid o') + number (ask o')) / 2
                     else or_else (lastPrice o') 0);
          returnPercent = (if premium > 0 then toFixed ((premium / currentPrice) * 100) 3
                           else Dec False 3 0);
          goalScore = calculateGoalBasedScore_srv premium (assignmentProb * 100) (strike o')
                        currentPrice daysToExpiry;
          returnAssignmentRatio = (if premium > 0 \<and> assignmentProb > 0
                                   then toFixed (((premium / currentPrice) * 100)
                                                   / (assignmentProb * 100)) 3
                                   else NA);
          weeklyReturn = (if premium > 0 then (premium / currentPrice) * 100 else 0);
          meetsWeeklyTarget = (daysToExpiry \<le> 8 \<and> weeklyReturn \<ge> 0.25);
          meetsBiweeklyTarget = (daysToExpiry \<le> 16 \<and> weeklyReturn \<ge> 0.5);
          meetsTarget = (meetsWeeklyTarget \<or> meetsBiweeklyTarget);
          targetType = (if meetsWeeklyTarget then ''weekly''
                        else if meetsBiweeklyTarget then ''bi-weekly'' else ''none'')
      in \<lparr>contractSymbol = contractSymbol o',
          strike = strike o',
          lastPrice = lastPrice o',
          bid = bid o',
          ask = ask o',
          change = change o',
          percentChange = percentChange o',
          volume = volume o',
          openInterest = openInterest o',
          impliedVolatility = impliedVolatility o',
          inTheMoney = inTheMoney o',
          otmPercent = toFixed ((strike o' - currentPrice) / currentPrice * 100) 2,
          assignmentProbability = toFixed (assignmentProb * 100) 1,
          premium = toFixed premium 2,
          returnPercent = returnPercent,
          goalScore = (if goalScore > 0 then toFixed goalScore 3 else returnAssignmentRatio),
          returnAssignmentRatio = returnAssignmentRatio,
          meetsTarget = meetsTarget,
          targetType = targetType,
          daysToExpiry = math_round daysToExpiry\<rparr>)"

section \<open>The loop over the target expirations\<close>

text \<open>
  The loop body is the same text in both scripts (src/api/index.js, lines 253 to 355;
  src/client/src/App.vue, lines 413 to 503) but for \<open>mapOption\<close>, which is a parameter
  here. \<open>clock k\<close> is the \<open>k\<close>-th reading of \<open>Date.now()\<close> during the request, and the
  number of readings taken so far is passed along: \<open>Array.prototype.map\<close> calls
  \<open>mapOption\<close> on the contracts in order, and each call reads the clock twice.
\<close>

fun mapCalls ::
  "(int \<Rightarrow> int \<Rightarrow> raw_contract \<Rightarrow> 'c) \<Rightarrow> (nat \<Rightarrow> int) \<Rightarrow> nat \<Rightarrow> raw_contract list \<Rightarrow> 'c list \<times> nat" where
  "mapCalls f clock k [] = ([], k)"
| "mapCalls f clock k (c # cs) =
     (let r = f (clock k) (clock (k + 1)) c;
          (rs, k') = mapCalls f clock (k + 2) cs
      in (r # rs, k'))"

text \<open>\<open>chain?.options?.[0]\<close>.\<close>

definition first_group :: "chain option \<Rightarrow> option_group option" where
  "first_group ch =
     (case ch of None \<Rightarrow> None
      | Some c \<Rightarrow> (case options c of [] \<Rightarrow> None | g # _ \<Rightarrow> Some g))"

text \<open>The body of the loop from the filter on, for the group \<open>opt\<close> of the target.
  \<open>allCalls.sort\<close> sorts the array in place; \<open>qualifyingCalls\<close> is another array,
  made before.\<close>

definition selectCalls ::
  "(int \<Rightarrow> int \<Rightarrow> raw_contract \<Rightarrow> 'a scored_contract_scheme) \<Rightarrow> (nat \<Rightarrow> int) \<Rightarrow> nat \<Rightarrow> real \<Rightarrow> real
     \<Rightarrow> int \<Rightarrow> option_group \<Rightarrow> 'a scored_contract_scheme expiration_result \<times> nat" where
  "selectCalls mapOption' clock k otmLow otmHigh target opt =
     (let (allCalls, k') =
            mapCalls mapOption' clock k
              (filter (\<lambda>call. strike call \<ge> otmLow \<and> strike call \<le> otmHigh)
                 (case group_calls opt of None \<Rightarrow> [] | Some cs \<Rightarrow> cs));
          qualifyingCalls =
            sort_by (\<lambda>a b. minus_nan (parseFloat (goalScore b)) (parseFloat (goalScore a)))
              (filter meetsTarget allCalls);
          finalCalls = sort_by (\<lambda>a b. Some (strike a - strike b)) allCalls;
          bestOption = (case qualifyingCalls of [] \<Rightarrow> None | b # _ \<Rightarrow> Some b);
          bestOptionReason =
            (case bestOption of
               None \<Rightarrow> []
             | Some b \<Rightarrow>
                 [Lit ''Meets '', Lit (targetType b), Lit '' target ('',
                  Field (returnPercent b), Lit ''% return) with '',
                  Field (assignmentProbability b), Lit ''% assignment risk. '',
                  Lit ''Score: '', Field (goalScore b),
                  Lit '' (higher is better for return/risk ratio).''])
      in (\<lparr>expiration =
              (case expirationDate opt of
                 None \<Rightarrow> target
               | Some d \<Rightarrow> if d = 0 then target else d) div 1000,
           calls = finalCalls,
           bestOption = bestOption,
           bestOptionReason = bestOptionReason,
           hasQualifyingOptions = (length qualifyingCalls > 0)\<rparr>, k'))"

text \<open>The loop. \<open>fetch target\<close> is what \<open>await yf.options(symbol, {date: target})\<close>
  gives: \<open>Inl\<close> the message of the error it throws, which ends the loop and the
  request, or \<open>Inr\<close> the chain. The results are pushed in the order of the targets.\<close>

fun analyseTargets ::
  "(int \<Rightarrow> int \<Rightarrow> int \<Rightarrow> raw_contract \<Rightarrow> 'a scored_contract_scheme) \<Rightarrow> (int \<Rightarrow> string + chain option)
     \<Rightarrow> (nat \<Rightarrow> int) \<Rightarrow> real \<Rightarrow> real \<Rightarrow> int list \<Rightarrow> nat
     \<Rightarrow> string + 'a scored_contract_scheme expiration_result list" where
  "analyseTargets mapOption' fetch clock otmLow otmHigh [] k = Inr []"
| "analyseTargets mapOption' fetch clock otmLow otmHigh (target # targets) k =
     (case fetch target of
        Inl message \<Rightarrow> Inl message
      | Inr ch \<Rightarrow>
          (case first_group ch of
             None \<Rightarrow> analyseTargets mapOption' fetch clock otmLow otmHigh targets k
           | Some opt \<Rightarrow>
               (let (result, k') =
                      selectCalls (mapOption' target) clock k otmLow otmHigh target opt
                in case analyseTargets mapOption' fetch clock otmLow otmHigh targets k' of
                     Inl message \<Rightarrow> Inl message
                   | Inr results \<Rightarrow> Inr (result # results))))"

section \<open>The handlers of /api/options-weeks/:symbol\<close>

text \<open>The provider \<open>yahoo-finance2\<close>: each call throws (\<open>Inl\<close> the message) or
  resolves. \<open>quoteSummary\<close> gives \<open>quote?.price?.regularMarketPrice\<close>, absent when not
  a finite number; \<open>expirationDates\<close> gives \<open>base?.expirationDates || []\<close>, in
  milliseconds.\<close>

record provider =
  quoteSummary :: "string \<Rightarrow> string + real option"
  expirationDates :: "string \<Rightarrow> string + int list"
  optionsAt :: "string \<Rightarrow> int \<Rightarrow> string + chain option"

record 'c analysis =
  res_symbol :: string
  res_currentPrice :: real
  res_otmRange :: "real \<times> real"
  res_expirations :: "'c expiration_result list"

text \<open>A response: the JSON body of a success, or a status with the \<open>error\<close> and the
  \<open>details\<close> of the body.\<close>

datatype 'c response = Json "'c analysis" | Failure nat string "string option"

text \<open>The targets of src/api/index.js, lines 227 to 246: the first four expirations from
  the local midnight \<open>today\<close> on, or the latest one when none is left.\<close>

definition nextTargets :: "int \<Rightarrow> int list \<Rightarrow> int list" where
  "nextTargets today expirations =
     (let sortedExpirations = sort_by (\<lambda>a b. Some (real_of_int (a - b))) expirations;
          futureExpirations = filter (\<lambda>exp. exp \<ge> today) sortedExpirations;
          targets = take (min 4 (length futureExpirations)) futureExpirations
      in if length targets = 0 \<and> length sortedExpirations > 0
         then targets @ [last sortedExpirations]
         else targets)"

text \<open>The handler of src/api/index.js, lines 212 to 361, for the symbol after
  \<open>toUpperNoSpaces\<close>.\<close>

definition optionsWeeks ::
  "provider \<Rightarrow> int \<Rightarrow> (nat \<Rightarrow> int) \<Rightarrow> string \<Rightarrow> scored_contract_api response" where
  "optionsWeeks yf today clock symbol =
     (if symbol = [] then Failure 400 ''Missing symbol'' None
      else
        (case quoteSummary yf symbol of
           Inl message \<Rightarrow> Failure 500 ''Failed to fetch weekly options'' (Some message)
         | Inr price \<Rightarrow>
             if \<not> truthy price then Failure 400 ''Unable to get current stock price'' None
             else
               (let currentPrice = or_else price 0 in
                case expirationDates yf symbol of
                  Inl message \<Rightarrow> Failure 500 ''Failed to fetch weekly options'' (Some message)
                | Inr expirations \<Rightarrow>
                    if length expirations = 0 then Failure 404 ''No expirations available'' None
                    else
                      (let targets = nextTargets today expirations;
                           otmLow = currentPrice * 1.001;
                           otmHigh = currentPrice * 1.10
                       in case analyseTargets (mapOption currentPrice) (optionsAt yf symbol) clock
                                 otmLow otmHigh targets 0 of
                            Inl message \<Rightarrow>
                              Failure 500 ''Failed to fetch weekly options'' (Some message)
                          | Inr results \<Rightarrow>
                              Json \<lparr>res_symbol = symbol, res_currentPrice = currentPrice,
                                    res_otmRange = (otmLow, otmHigh),
                                    res_expirations = results\<rparr>))))"

text \<open>The targets of the second script, src/client/src/App.vue, lines 393 to 406: the
  earliest expiration within a week of \<open>nowMs\<close> (the earliest of all when there is
  none), then the earliest one after it.\<close>

definition weekTargets :: "int \<Rightarrow> int list \<Rightarrow> int list" where
  "weekTargets nowMs expirations =
     (let oneWeekMs = 7 * 24 * 3600 * 1000;
          withinWeek = filter (\<lambda>d. d \<ge> nowMs \<and> d \<le> nowMs + oneWeekMs) expirations;
          currentTarget = (if length withinWeek > 0 then Min (set withinWeek)
                           else Min (set expirations));
          afterCurrent = filter (\<lambda>t. t > currentTarget) expirations
      in [currentTarget] @ (if length afterCurrent > 0 then [Min (set afterCurrent)] else []))"

text \<open>The handler of the second script, lines 378 to 509; \<open>nowMs\<close> is the first
  reading of the clock.\<close>

definition optionsWeeks_srv ::
  "provider \<Rightarrow> (nat \<Rightarrow> int) \<Rightarrow> string \<Rightarrow> scored_contract response" where
  "optionsWeeks_srv yf clock symbol =
     (if symbol = [] then Failure 400 ''Missing symbol'' None
      else
        (case quoteSummary yf symbol of
           Inl message \<Rightarrow> Failure 500 ''Failed to fetch weekly options'' (Some message)
         | Inr price \<Rightarrow>
             if \<not> truthy price then Failure 400 ''Unable to get current stock price'' None
             else
               (let currentPrice = or_else price 0 in
                case expirationDates yf symbol of
                  Inl message \<Rightarrow> Failure 500 ''Failed to fetch weekly options'' (Some message)
                | Inr expirations \<Rightarrow>
                    if length expirations = 0 then Failure 404 ''No expirations available'' None
                    else
                      (let targets = weekTargets (clock 0) expirations;
                           otmLow = currentPrice * 1.001;
                           otmHigh = currentPrice * 1.10
                       in case analyseTargets (mapOption_srv currentPrice) (optionsAt yf symbol)
                                 clock otmLow otmHigh targets 1 of
                            Inl message \<Rightarrow>
                              Failure 500 ''Failed to fetch weekly options'' (Some message)
                          | Inr results \<Rightarrow>
                              Json \<lparr>res_symbol = symbol, res_currentPrice = currentPrice,
                                    res_otmRange = (otmLow, otmHigh),
                                    res_expirations = results\<rparr>))))"

section \<open>Intermediate values of mapOption\<close>

text \<open>The premium, the probabilities and the score that \<open>mapOption\<close> computes for a
  contract and does not publish as they are, by the expressions of the source.\<close>

definition contractPremium :: "raw_contract \<Rightarrow> real" where
  "contractPremium o' =
     (if truthy (bid o') \<and> truthy (ask o')
      then (number (bid o') + number (ask o')) / 2
      else or_else (lastPrice o') 0)"

definition contractDays :: "int \<Rightarrow> int \<Rightarrow> real" where
  "contractDays target now2 = real_of_int (target - now2) / (1000 * 3600 * 24)"

definition contractProbs :: "real \<Rightarrow> int \<Rightarrow> int \<Rightarrow> raw_contract \<Rightarrow> probability_estimate" where
  "contractProbs currentPrice target now1 o' =
     (let timeToExpiry = real_of_int (target - now1) / (1000 * 3600 * 24 * 365);
          riskFreeRate = 0.045;
          volatility = or_else (impliedVolatility o') 0.25;
          theoreticalDelta = calculateDelta currentPrice (strike o') timeToExpiry riskFreeRate
                               volatility ''call''
      in calculateAssignmentProbability currentPrice (strike o') timeToExpiry riskFreeRate
           volatility (Some theoreticalDelta))"

definition contractScore :: "real \<Rightarrow> int \<Rightarrow> int \<Rightarrow> int \<Rightarrow> raw_contract \<Rightarrow> real" where
  "contractScore currentPrice target now1 now2 o' =
     calculateGoalBasedScore (contractPremium o')
       (enhanced (contractProbs currentPrice target now1 o') * 100) (strike o') currentPrice
       (contractDays target now2)"

definition contractProb_srv :: "real \<Rightarrow> int \<Rightarrow> int \<Rightarrow> raw_contract \<Rightarrow> real" where
  "contractProb_srv currentPrice target now1 o' =
     (let timeToExpiry = real_of_int (target - now1) / (1000 * 3600 * 24 * 365);
          riskFreeRate = 0.045;
          volatility = or_else (impliedVolatility o') 0.25
      in calculateAssignmentProbability_srv currentPrice (strike o') timeToExpiry riskFreeRate
           volatility)"

definition contractScore_srv :: "real \<Rightarrow> int \<Rightarrow> int \<Rightarrow> int \<Rightarrow> raw_contract \<Rightarrow> real" where
  "contractScore_srv currentPrice target now1 now2 o' =
     calculateGoalBasedScore_srv (contractPremium o')
       (contractProb_srv currentPrice target now1 o' * 100) (strike o') currentPrice
       (contractDays target now2)"

text \<open>The order of two published scores, as \<open>parseFloat\<close> reads them; a score that
  reads as \<open>NaN\<close> is in no order with any other.\<close>

definition score_le :: "jstext \<Rightarrow> jstext \<Rightarrow> bool" where
  "score_le s t =
     (case parseFloat s of
        None \<Rightarrow> False
      | Some x \<Rightarrow> (case parseFloat t of None \<Rightarrow> False | Some y \<Rightarrow> x \<le> y))"

text \<open>The key by which the qualifying contracts are sorted: the published score,
  negated, since the comparator puts the higher score first.\<close>

definition score_key :: "jstext \<Rightarrow> real" where
  "score_key s = (case parseFloat s of None \<Rightarrow> 0 | Some v \<Rightarrow> - v)"

section \<open>What the loop emits for a target\<close>

text \<open>The group of contracts the provider has for a target, if any; a group without
  contracts; a result without contracts; and the result the loop emits for a target that
  has a group, which is an empty one when the group has no contracts.\<close>

definition group_at :: "(int \<Rightarrow> string + chain option) \<Rightarrow> int \<Rightarrow> option_group option" where
  "group_at fetch t = (case fetch t of Inl _ \<Rightarrow> None | Inr ch \<Rightarrow> first_group ch)"

definition has_group :: "(int \<Rightarrow> string + chain option) \<Rightarrow> int \<Rightarrow> bool" where
  "has_group fetch t = (group_at fetch t \<noteq> None)"

definition no_contracts :: "option_group \<Rightarrow> bool" where
  "no_contracts g = (case group_calls g of None \<Rightarrow> True | Some cs \<Rightarrow> cs = [])"

definition empty_result :: "'c expiration_result \<Rightarrow> bool" where
  "empty_result r = (calls r = [] \<and> bestOption r = None \<and> \<not> hasQualifyingOptions r)"

definition result_for ::
  "(int \<Rightarrow> int \<Rightarrow> int \<Rightarrow> raw_contract \<Rightarrow> 'a scored_contract_scheme) \<Rightarrow> (int \<Rightarrow> string + chain option)
     \<Rightarrow> (nat \<Rightarrow> int) \<Rightarrow> real \<Rightarrow> real \<Rightarrow> 'a scored_contract_scheme expiration_result \<Rightarrow> int \<Rightarrow> bool" where
  "result_for mapOption' fetch clock otmLow otmHigh r t =
     (\<exists>g k. group_at fetch t = Some g
        \<and> r = fst (selectCalls (mapOption' t) clock k otmLow otmHigh t g)
        \<and> (no_contracts g \<longrightarrow> empty_result r))"

section \<open>Example requests\<close>

text \<open>A quote of 100 and one expiration, at the local midnight that began the day of the
  request; the clock reads one hour later throughout. The chain holds four calls: two
  within the band that meet the weekly target of src/api/index.js, one within the band
  that does not, and one beyond the band.\<close>

definition ex_contract :: "real \<Rightarrow> real option \<Rightarrow> real option \<Rightarrow> real option \<Rightarrow> raw_contract" where
  "ex_contract k b a l =
     \<lparr>contractSymbol = ''AAPL'', strike = k, lastPrice = l, bid = b, ask = a, change = None,
      percentChange = None, volume = None, openInterest = None, impliedVolatility = None,
      inTheMoney = False\<rparr>"

definition ex_c108 :: raw_contract where "ex_c108 = ex_contract 108 None None (Some 0.15)"
definition ex_c120 :: raw_contract where "ex_c120 = ex_contract 120 (Some 1) (Some 2) None"
definition ex_c102 :: raw_contract where "ex_c102 = ex_contract 102 (Some 0.2) (Some 0.4) (Some 0.25)"
definition ex_c105 :: raw_contract where "ex_c105 = ex_contract 105 None None (Some 0.05)"

definition ex_group :: option_group where
  "ex_group = \<lparr>expirationDate = None, group_calls = Some [ex_c108, ex_c120, ex_c102, ex_c105]\<rparr>"

definition ex_yf :: provider where
  "ex_yf = \<lparr>quoteSummary = (\<lambda>s. Inr (Some 100)),
            expirationDates = (\<lambda>s. Inr [0]),
            optionsAt = (\<lambda>s t. Inr (Some \<lparr>underlyingSymbol = s, options = [ex_group]\<rparr>))\<rparr>"

definition ex_clock :: "nat \<Rightarrow> int" where
  "ex_clock k = 3600000"

text \<open>The contracts as \<open>mapOption\<close> of either script returns them in that request.\<close>

definition ex_scored :: "raw_contract \<Rightarrow> scored_contract_api" where
  "ex_scored c = mapOption 100 0 3600000 3600000 c"

definition ex_scored_srv :: "raw_contract \<Rightarrow> scored_contract" where
  "ex_scored_srv c = mapOption_srv 100 0 3600000 3600000 c"

text \<open>What the loop emits for that group, and the body of the response, in either
  script.\<close>

definition ex_result :: "scored_contract_api expiration_result" where
  "ex_result = fst (selectCalls (mapOption 100 0) ex_clock 0 (100 * 1.001) (100 * 1.10) 0 ex_group)"

definition ex_result_srv :: "scored_contract expiration_result" where
  "ex_result_srv =
     fst (selectCalls (mapOption_srv 100 0) ex_clock 1 (100 * 1.001) (100 * 1.10) 0 ex_group)"

definition ex_analysis :: "scored_contract_api analysis" where
  "ex_analysis = \<lparr>res_symbol = ''AAPL'', res_currentPrice = 100,
                  res_otmRange = (100 * 1.001, 100 * 1.10), res_expirations = [ex_result]\<rparr>"

definition ex_analysis_srv :: "scored_contract analysis" where
  "ex_analysis_srv = \<lparr>res_symbol = ''AAPL'', res_currentPrice = 100,
                      res_otmRange = (100 * 1.001, 100 * 1.10),
                      res_expirations = [ex_result_srv]\<rparr>"

text \<open>A call in the money whose premium is below the weekly target of both scripts.\<close>

definition ex_c95 :: raw_contract where "ex_c95 = ex_contract 95 None None (Some 0.05)"

text \<open>A provider with two expirations: the chain of the first has no group of
  contracts, the group of the second has no calls. And one with the first only.\<close>

definition ex_yf_partial :: provider where
  "ex_yf_partial =
     \<lparr>quoteSummary = (\<lambda>s. Inr (Some 100)),
      expirationDates = (\<lambda>s. Inr [0, 86400000]),
      optionsAt = (\<lambda>s t. Inr (Some \<lparr>underlyingSymbol = s,
                                     options = (if t = 0 then []
                                                else [\<lparr>expirationDate = Some t,
                                                       group_calls = None\<rparr>])\<rparr>))\<rparr>"

definition ex_yf_nogroup :: provider where
  "ex_yf_nogroup =
     \<lparr>quoteSummary = (\<lambda>s. Inr (Some 100)),
      expirationDates = (\<lambda>s. Inr [0]),
      optionsAt = (\<lambda>s t. Inr (Some \<lparr>underlyingSymbol = s, options = []\<rparr>))\<rparr>"

section \<open>Properties of the pricing functions\<close>

subsection \<open>The range of the normal-CDF approximation\<close>

lemma poly_lower:
  fixes t :: real
  assumes "0 \<le> t" "t \<le> 1"
  shows "0 \<le> (((((1.061405429 * t + (-1.453152027)) * t) + 1.421413741) * t
                 + (-0.284496736)) * t + 0.254829592)"
proof -
  have q: "0.92 \<le> 1.061405429 * t * t + (-1.453152027) * t + 1.421413741"
  proof -
    have "0 \<le> 1.061405429 * (t - 0.6845)\<^sup>2" by simp
    then show ?thesis using assms by (simp add: power2_eq_square algebra_simps)
  qed
  have "0 \<le> (t * t) * (1.061405429 * t * t + (-1.453152027) * t + 1.421413741 - 0.92)"
    using q assms by (intro mult_nonneg_nonneg) auto
  moreover have "0 \<le> 0.92 * (t - 0.1547)\<^sup>2" by simp
  ultimately show ?thesis using assms by (simp add: power2_eq_square algebra_simps)
qed

lemma poly_upper:
  fixes t :: real
  assumes "0 \<le> t" "t \<le> 1"
  shows "(((((1.061405429 * t + (-1.453152027)) * t) + 1.421413741) * t
            + (-0.284496736)) * t + 0.254829592) \<le> 2"
proof -
  have "0 \<le> (t * t * t) * (1.453152027 - 1.061405429 * t)"
    using assms by (intro mult_nonneg_nonneg) auto
  moreover have "t * t \<le> 1" using assms by (simp add: mult_le_one)
  ultimately show ?thesis using assms by (simp add: algebra_simps)
qed

lemma normalCDF_bounds: "0 \<le> normalCDF x \<and> normalCDF x \<le> 1"
proof -
  define x' where "x' = \<bar>x\<bar> / sqrt 2"
  define t where "t = 1.0 / (1.0 + 0.3275911 * x')"
  define q where "q = (((((1.061405429 * t + (-1.453152027)) * t) + 1.421413741) * t
                          + (-0.284496736)) * t + 0.254829592)"
  define e where "e = exp (- x' * x')"
  define y where "y = 1.0 - q * t * e"
  have x'0: "0 \<le> x'" by (simp add: x'_def)
  have t0: "0 \<le> t" using x'0 by (simp add: t_def)
  have t1: "t \<le> 1" using x'0 by (simp add: t_def)
  have q0: "0 \<le> q" unfolding q_def by (rule poly_lower [OF t0 t1])
  have q2: "q \<le> 2" unfolding q_def by (rule poly_upper [OF t0 t1])
  have e0: "0 \<le> e" by (simp add: e_def)
  have e1: "e \<le> 1" using x'0 by (simp add: e_def)
  have qt0: "0 \<le> q * t" using q0 t0 by simp
  have qt2: "q * t \<le> 2" using mult_mono [OF q2 t1 _ t0] by simp
  have qte0: "0 \<le> q * t * e" using qt0 e0 by simp
  have qte2: "q * t * e \<le> 2" using mult_mono [OF qt2 e1 _ e0] by simp
  have y1: "y \<le> 1" and ym1: "-1 \<le> y" using qte0 qte2 by (simp_all add: y_def)
  have eq: "normalCDF x = 0.5 * (1.0 + (if x \<ge> 0 then 1 else -1) * y)"
    unfolding normalCDF_def Let_def y_def q_def t_def e_def x'_def by (rule refl)
  show ?thesis using y1 ym1 unfolding eq by (cases "x \<ge> 0") simp_all
qed

lemma normalCDF_zero: "normalCDF 0 = 0.5000000005"
  by (simp add: normalCDF_def Let_def)

subsection \<open>The two branches of the assignment probability\<close>

lemma original_later:
  assumes "\<not> T \<le> 0"
  shows "original (calculateAssignmentProbability S K T r v md)
       = normalCDF ((ln (S / K) + (r + 0.5 * v * v) * T) / (v * sqrt T) - v * sqrt T)"
  unfolding calculateAssignmentProbability_def Let_def
  by (simp only: assms if_False probability_estimate.simps)

lemma srv_later:
  assumes "\<not> T \<le> 0"
  shows "calculateAssignmentProbability_srv S K T r v
       = normalCDF ((ln (S / K) + (r + 0.5 * v * v) * T) / (v * sqrt T) - v * sqrt T)"
  unfolding calculateAssignmentProbability_srv_def Let_def
  by (simp only: assms if_False)

lemma expired:
  assumes "T \<le> 0"
  shows "calculateAssignmentProbability S K T r v md
       = \<lparr>original = (if K \<le> S then 1 else 0), enhanced = (if K \<le> S then 1 else 0)\<rparr>"
    and "calculateAssignmentProbability_srv S K T r v = (if K \<le> S then 1 else 0)"
  unfolding calculateAssignmentProbability_def calculateAssignmentProbability_srv_def
  by (simp_all only: assms if_True)

lemma bs_d2_code:
  "bs_d2 S K T r v = (ln (S / K) + (r + 0.5 * v * v) * T) / (v * sqrt T) - v * sqrt T"
  unfolding bs_d2_def bs_d1_def power2_eq_square mult.assoc by (rule refl)

lemma unit_clamp: "0 \<le> max 0 (min 1 e) \<and> max 0 (min 1 e) \<le> (1::real)"
  by (simp add: min_def max_def)

lemma enhanced_bounds:
  "0 \<le> enhanced (calculateAssignmentProbability S K T r v md)
   \<and> enhanced (calculateAssignmentProbability S K T r v md) \<le> 1"
proof (cases "T \<le> 0")
  case True
  then show ?thesis by (simp add: expired)
next
  case False
  show ?thesis
    unfolding calculateAssignmentProbability_def Let_def
    by (simp only: False if_False probability_estimate.simps unit_clamp simp_thms)
qed

lemma original_bounds:
  "0 \<le> original (calculateAssignmentProbability S K T r v md)
   \<and> original (calculateAssignmentProbability S K T r v md) \<le> 1"
proof (cases "T \<le> 0")
  case True
  then show ?thesis by (simp add: expired)
next
  case False
  show ?thesis unfolding original_later [OF False] by (rule normalCDF_bounds)
qed

lemma srv_bounds:
  "0 \<le> calculateAssignmentProbability_srv S K T r v
   \<and> calculateAssignmentProbability_srv S K T r v \<le> 1"
proof (cases "T \<le> 0")
  case True
  then show ?thesis by (simp add: expired)
next
  case False
  show ?thesis unfolding srv_later [OF False] by (rule normalCDF_bounds)
qed

text \<open>C1. For spot, strike and volatility above zero: when \<open>timeToExpiry \<le> 0\<close> the
  function returns probability 1 if \<open>strike \<le> spot\<close> and 0 otherwise (in both fields of
  the API's result, and as the number the second script returns); when
  \<open>timeToExpiry > 0\<close> the original probability is \<open>normalCDF d2\<close> with
  \<open>d1 = (ln (spot / strike) + (r + 0.5 \<sigma>\<^sup>2) T) / (\<sigma> \<surd>T)\<close> and \<open>d2 = d1 - \<sigma> \<surd>T\<close>.\<close>

theorem C1_assignment_probability_formula:
  assumes "0 < spot" "0 < K" "0 < volatility"
  shows "(if timeToExpiry \<le> 0
          then calculateAssignmentProbability spot K timeToExpiry riskFreeRate volatility md
                 = (if K \<le> spot then \<lparr>original = 1, enhanced = 1\<rparr>
                    else \<lparr>original = 0, enhanced = 0\<rparr>)
               \<and> calculateAssignmentProbability_srv spot K timeToExpiry riskFreeRate volatility
                 = (if K \<le> spot then 1 else 0)
          else original (calculateAssignmentProbability spot K timeToExpiry riskFreeRate
                   volatility md)
                 = normalCDF (bs_d2 spot K timeToExpiry riskFreeRate volatility)
               \<and> calculateAssignmentProbability_srv spot K timeToExpiry riskFreeRate volatility
                 = normalCDF (bs_d2 spot K timeToExpiry riskFreeRate volatility))"
proof (cases "timeToExpiry \<le> 0")
  case True
  then show ?thesis by (simp add: expired)
next
  case False
  then show ?thesis by (simp only: if_False original_later srv_later bs_d2_code simp_thms)
qed

theorem C1_witness:
  "calculateAssignmentProbability 100 105 0 0.045 0.25 None = \<lparr>original = 0, enhanced = 0\<rparr>
   \<and> calculateAssignmentProbability_srv 100 100 (-1) 0.045 0.25 = 1
   \<and> original (calculateAssignmentProbability 100 100 1 0.02 0.2 None) = 0.5000000005
   \<and> calculateAssignmentProbability_srv 100 100 1 0.02 0.2 = 0.5000000005"
proof -
  have d2: "bs_d2 100 100 1 0.02 0.2 = 0"
    by (simp add: bs_d2_def bs_d1_def power2_eq_square)
  have a: "calculateAssignmentProbability 100 105 0 0.045 0.25 None
             = \<lparr>original = 0, enhanced = 0\<rparr>"
    using C1_assignment_probability_formula [of 100 105 "0.25" 0 "0.045" None] by simp
  have b: "calculateAssignmentProbability_srv 100 100 (-1) 0.045 0.25 = 1"
    using C1_assignment_probability_formula [of 100 100 "0.25" "-1" "0.045" None] by simp
  have c: "original (calculateAssignmentProbability 100 100 1 0.02 0.2 None)
             = normalCDF (bs_d2 100 100 1 0.02 0.2)
           \<and> calculateAssignmentProbability_srv 100 100 1 0.02 0.2
             = normalCDF (bs_d2 100 100 1 0.02 0.2)"
    using C1_assignment_probability_formula [of 100 100 "0.2" 1 "0.02" None] by simp
  show ?thesis using a b c unfolding d2 normalCDF_zero by blast
qed

text \<open>C2. For spot, strike and volatility above zero and any time to expiry, both the
  original and the enhanced probability lie in the closed interval from 0 to 1; the
  original one, which is returned without a clamp, because \<open>normalCDF\<close> stays in that
  interval.\<close>

theorem C2_probabilities_in_unit_interval:
  assumes "0 < spot" "0 < K" "0 < volatility"
  shows "0 \<le> original (calculateAssignmentProbability spot K timeToExpiry riskFreeRate
                  volatility md)
       \<and> original (calculateAssignmentProbability spot K timeToExpiry riskFreeRate
                  volatility md) \<le> 1
       \<and> 0 \<le> enhanced (calculateAssignmentProbability spot K timeToExpiry riskFreeRate
                  volatility md)
       \<and> enhanced (calculateAssignmentProbability spot K timeToExpiry riskFreeRate
                  volatility md) \<le> 1"
  using original_bounds enhanced_bounds by blast

theorem C2_witness:
  "0 \<le> original (calculateAssignmentProbability 100 105 (7 / 365) 0.045 0.25 (Some 0.3))
   \<and> original (calculateAssignmentProbability 100 105 (7 / 365) 0.045 0.25 (Some 0.3)) \<le> 1
   \<and> 0 \<le> enhanced (calculateAssignmentProbability 100 105 (7 / 365) 0.045 0.25 (Some 0.3))
   \<and> enhanced (calculateAssignmentProbability 100 105 (7 / 365) 0.045 0.25 (Some 0.3)) \<le> 1"
proof -
  have h: "(0::real) < 100" "(0::real) < 105" "(0::real) < 0.25" by simp_all
  show ?thesis by (rule C2_probabilities_in_unit_interval [OF h])
qed

subsection \<open>The order of the refinement steps\<close>

lemma step1: "(p * 0.7) + (\<bar>md\<bar> * 0.3) = deltaBlend p md"
  by (simp add: deltaBlend_def)

lemma step2: "e * min 2.0 (max 0.5 (v / 0.25)) = volatilityScaling v e"
  by (simp add: volatilityScaling_def clamp_def min_def max_def)

lemma step3:
  "(if T < 7 / 365 then e * (1 + (0.1 * (7 / 365 - T) / (7 / 365))) else e)
     = shortDatedBoost T e"
  by (simp add: shortDatedBoost_def)

lemma step4:
  "(if S / K > 1.05 then e * 1.1 else if S / K > 0.95 \<and> S / K \<le> 1.05 then e * 1.05 else e)
     = moneynessBoost S K e"
  by (simp add: moneynessBoost_def)

lemma step5: "max 0 (min 1 e) = clamp e 0 1"
  by (simp add: clamp_def min_def max_def)

text \<open>C3. With \<open>timeToExpiry > 0\<close> and a market delta that is not null, the enhanced
  probability is the clamp to the interval from 0 to 1 of the original probability after,
  in this order, the delta blend, the volatility scaling, the short-dated boost and the
  moneyness boost.\<close>

theorem C3_enhanced_is_refinement:
  assumes "0 < timeToExpiry"
  shows "enhanced (calculateAssignmentProbability spot K timeToExpiry riskFreeRate volatility
                     (Some marketDelta))
       = refined (original (calculateAssignmentProbability spot K timeToExpiry riskFreeRate
                     volatility (Some marketDelta)))
           marketDelta volatility timeToExpiry spot K"
proof -
  have ne: "\<not> timeToExpiry \<le> 0" using assms by simp
  show ?thesis
    unfolding calculateAssignmentProbability_def Let_def refined_def
    by (simp only: ne if_False option.case probability_estimate.simps
        step1 step2 step3 step4 step5)
qed

theorem C3_witness:
  "enhanced (calculateAssignmentProbability 100 100 1 0.02 0.2 (Some 0.5)) = 0.420000000294"
proof -
  have o: "original (calculateAssignmentProbability 100 100 1 0.02 0.2 (Some 0.5))
             = 0.5000000005"
    by (simp add: original_later normalCDF_zero)
  have "enhanced (calculateAssignmentProbability 100 100 1 0.02 0.2 (Some 0.5))
          = refined 0.5000000005 0.5 0.2 1 100 100"
    using C3_enhanced_is_refinement [of 1 100 100 "0.02" "0.2" "0.5"] unfolding o by simp
  also have "\<dots> = 0.420000000294"
    by (simp add: refined_def clamp_def moneynessBoost_def shortDatedBoost_def
        volatilityScaling_def deltaBlend_def)
  finally show ?thesis .
qed

text \<open>C9. At \<open>timeToExpiry \<le> 0\<close> with the spot equal to the strike the two degenerate
  branches disagree: the call delta is 0, the assignment probability is 1 in both
  fields.\<close>

theorem C9_degenerate_branches_disagree:
  assumes "timeToExpiry \<le> 0"
  shows "calculateDelta spot spot timeToExpiry riskFreeRate volatility ''call'' = 0
       \<and> calculateAssignmentProbability spot spot timeToExpiry riskFreeRate volatility md
           = \<lparr>original = 1, enhanced = 1\<rparr>"
  using assms by (simp add: calculateDelta_def calculateAssignmentProbability_def)

theorem C9_witness:
  "calculateDelta 100 100 0 0.045 0.25 ''call'' = 0
   \<and> calculateAssignmentProbability 100 100 0 0.045 0.25 None
       = \<lparr>original = 1, enhanced = 1\<rparr>"
  using C9_degenerate_branches_disagree [of 0 100 "0.045" "0.25" None] by simp

section \<open>Properties of the goal scorer and the chain selector\<close>

lemma insert_by_key:
  fixes key :: "'a \<Rightarrow> real"
  assumes "\<And>y. y \<in> set ys \<Longrightarrow> (compare_result (comparefn x y) \<le> 0) = (key x \<le> key y)"
  shows "insert_by comparefn x ys = insort_key key x ys"
  using assms by (induction ys) simp_all

lemma sort_by_key:
  fixes key :: "'a \<Rightarrow> real"
  assumes "\<And>x y. x \<in> set xs \<Longrightarrow> y \<in> set xs
             \<Longrightarrow> (compare_result (comparefn x y) \<le> 0) = (key x \<le> key y)"
  shows "sort_by comparefn xs = sort_key key xs"
  using assms
proof (induction xs)
  case Nil
  show ?case by (simp add: sort_by_def)
next
  case (Cons x xs)
  have ih: "sort_by comparefn xs = sort_key key xs"
    by (rule Cons.IH) (simp add: Cons.prems)
  have "sort_by comparefn (x # xs) = insert_by comparefn x (sort_by comparefn xs)"
    by (simp add: sort_by_def)
  also have "\<dots> = insort_key key x (sort_key key xs)"
    unfolding ih by (rule insert_by_key) (simp add: Cons.prems)
  finally show ?case by simp
qed

lemma sort_by_strike:
  "sort_by (\<lambda>a b. Some (strike a - strike b)) xs = sort_key strike xs"
  by (rule sort_by_key) (simp add: compare_result_def)

lemma sort_by_score:
  assumes "\<And>x. x \<in> set xs \<Longrightarrow> parseFloat (goalScore x) \<noteq> None"
  shows "sort_by (\<lambda>a b. minus_nan (parseFloat (goalScore b)) (parseFloat (goalScore a))) xs
       = sort_key (\<lambda>c. score_key (goalScore c)) xs"
proof (rule sort_by_key)
  fix x y assume "x \<in> set xs" "y \<in> set xs"
  then obtain v w where "parseFloat (goalScore x) = Some v" "parseFloat (goalScore y) = Some w"
    using assms by blast
  then show "(compare_result (minus_nan (parseFloat (goalScore y)) (parseFloat (goalScore x))) \<le> 0)
           = (score_key (goalScore x) \<le> score_key (goalScore y))"
    by (simp add: compare_result_def score_key_def)
qed

lemma mapCalls_set:
  "r \<in> set (fst (mapCalls f clock k cs)) \<Longrightarrow> \<exists>c\<in>set cs. \<exists>n1 n2. r = f n1 n2 c"
proof (induction cs arbitrary: k)
  case Nil
  then show ?case by simp
next
  case (Cons c cs)
  then show ?case by (auto simp: Let_def split_def)
qed

lemma selectCalls_calls:
  "calls (fst (selectCalls m clock k lo hi target opt))
     = sort_by (\<lambda>a b. Some (strike a - strike b))
         (fst (mapCalls m clock k
            (filter (\<lambda>call. strike call \<ge> lo \<and> strike call \<le> hi)
               (case group_calls opt of None \<Rightarrow> [] | Some cs \<Rightarrow> cs))))"
  by (simp add: selectCalls_def Let_def split_def)

lemma selectCalls_best:
  "bestOption (fst (selectCalls m clock k lo hi target opt))
     = (case sort_by (\<lambda>a b. minus_nan (parseFloat (goalScore b)) (parseFloat (goalScore a)))
              (filter meetsTarget (fst (mapCalls m clock k
                 (filter (\<lambda>call. strike call \<ge> lo \<and> strike call \<le> hi)
                    (case group_calls opt of None \<Rightarrow> [] | Some cs \<Rightarrow> cs))))) of
          [] \<Rightarrow> None | b # _ \<Rightarrow> Some b)"
  by (simp add: selectCalls_def Let_def split_def)

lemma mapOption_strike: "strike (mapOption cp target n1 n2 c) = strike c"
  unfolding mapOption_def Let_def by simp

lemma mapOption_srv_strike: "strike (mapOption_srv cp target n1 n2 c) = strike c"
  unfolding mapOption_srv_def Let_def by simp

lemma mapOption_goalScore:
  "goalScore (mapOption cp target n1 n2 c)
     = (if contractScore cp target n1 n2 c > 0 then toFixed (contractScore cp target n1 n2 c) 3
        else returnAssignmentRatioEnhanced (mapOption cp target n1 n2 c))"
  unfolding mapOption_def contractScore_def contractProbs_def contractPremium_def
    contractDays_def Let_def
  by simp

lemma mapOption_enhancedRatio:
  "returnAssignmentRatioEnhanced (mapOption cp target n1 n2 c)
     = (if contractPremium c > 0 \<and> enhanced (contractProbs cp target n1 c) > 0
        then toFixed (((contractPremium c / cp) * 100)
                        / (enhanced (contractProbs cp target n1 c) * 100)) 3
        else NA)"
  unfolding mapOption_def contractProbs_def contractPremium_def Let_def
  by simp

lemma mapOption_meetsTarget:
  "meetsTarget (mapOption cp target n1 n2 c)
     = (let weeklyReturn = (if contractPremium c > 0 then (contractPremium c / cp) * 100 else 0)
        in (contractDays target n2 \<le> 8 \<and> weeklyReturn \<ge> 0.1)
           \<or> (contractDays target n2 \<le> 16 \<and> weeklyReturn \<ge> 0.2))"
  unfolding mapOption_def contractPremium_def contractDays_def Let_def
  by simp

lemma mapOption_srv_goalScore:
  "goalScore (mapOption_srv cp target n1 n2 c)
     = (if contractScore_srv cp target n1 n2 c > 0
        then toFixed (contractScore_srv cp target n1 n2 c) 3
        else returnAssignmentRatio (mapOption_srv cp target n1 n2 c))"
  unfolding mapOption_srv_def contractScore_srv_def contractProb_srv_def contractPremium_def
    contractDays_def Let_def
  by simp

lemma mapOption_srv_ratio:
  "returnAssignmentRatio (mapOption_srv cp target n1 n2 c)
     = (if contractPremium c > 0 \<and> contractProb_srv cp target n1 c > 0
        then toFixed (((contractPremium c / cp) * 100)
                        / (contractProb_srv cp target n1 c * 100)) 3
        else NA)"
  unfolding mapOption_srv_def contractProb_srv_def contractPremium_def Let_def
  by simp

lemma mapOption_srv_meetsTarget:
  "meetsTarget (mapOption_srv cp target n1 n2 c)
     = (let weeklyReturn = (if contractPremium c > 0 then (contractPremium c / cp) * 100 else 0)
        in (contractDays target n2 \<le> 8 \<and> weeklyReturn \<ge> 0.25)
           \<or> (contractDays target n2 \<le> 16 \<and> weeklyReturn \<ge> 0.5))"
  unfolding mapOption_srv_def contractPremium_def contractDays_def Let_def
  by simp

lemma score_gate_fails:
  assumes "(if d \<le> 8 then prem / spot < wt else if d \<le> 16 then prem / spot < bt else True)"
  shows "goalBasedScore wt bt prem p K spot d = -1"
  using assms by (simp add: goalBasedScore_def Let_def split: if_splits)

lemma score_gate_passes:
  assumes "(if d \<le> 8 then wt \<le> prem / spot else d \<le> 16 \<and> bt \<le> prem / spot)"
  shows "goalBasedScore wt bt prem p K spot d
       = prem / spot / (p / 100 + 0.001) * (if p > 30 then 0.5 else 1)"
  using assms by (simp add: goalBasedScore_def Let_def split: if_splits)

lemma risk_term_antimono:
  fixes rp :: real
  assumes "0 \<le> rp" "0 \<le> p1" "p1 \<le> p2"
  shows "rp / (p2 / 100 + 0.001) * (if p2 > 30 then 0.5 else 1)
       \<le> rp / (p1 / 100 + 0.001) * (if p1 > 30 then 0.5 else 1)"
proof -
  have pos1: "0 < p1 / 100 + 0.001" and pos2: "0 < p2 / 100 + 0.001"
    using assms by simp_all
  have base: "rp / (p2 / 100 + 0.001) \<le> rp / (p1 / 100 + 0.001)"
    using assms pos1 by (intro divide_left_mono) simp_all
  have nn: "0 \<le> rp / (p2 / 100 + 0.001)" "0 \<le> rp / (p1 / 100 + 0.001)"
    using assms pos1 pos2 by simp_all
  have pen: "(if p2 > 30 then 0.5 else 1) \<le> (if p1 > 30 then 0.5 else (1::real))"
    using assms by simp
  have pen0: "0 \<le> (if p2 > 30 then 0.5 else (1::real))" by simp
  show ?thesis by (rule mult_mono [OF base pen nn(2) pen0])
qed

lemma goalBasedScore_antimono:
  assumes wt: "0 \<le> wt" and bt: "0 \<le> bt" and p: "0 \<le> p1" "p1 \<le> p2"
  shows "goalBasedScore wt bt prem p2 K spot d
       \<le> goalBasedScore wt bt prem p1 K spot d"
proof (cases "if d \<le> 8 then wt \<le> prem / spot else d \<le> 16 \<and> bt \<le> prem / spot")
  case True
  then have "0 \<le> prem / spot" using wt bt by (auto split: if_splits)
  then show ?thesis
    unfolding score_gate_passes [OF True] using p by (rule risk_term_antimono)
next
  case False
  then have "if d \<le> 8 then prem / spot < wt else if d \<le> 16 then prem / spot < bt else True"
    by (auto split: if_splits)
  then show ?thesis by (simp add: score_gate_fails)
qed

text \<open>C6. Whenever the return \<open>premium / spot\<close> is below the threshold of its tenor
  (the weekly one up to 8 days, the bi-weekly one from there up to 16 days, with the pair
  of constants of either script), and whenever the days fall in neither bucket, the score
  is the sentinel \<open>-1\<close>.\<close>

theorem C6_below_threshold_disqualified:
  assumes "0 < spot"
  shows "((d \<le> 8 \<and> prem / spot < 0.001) \<or> (8 < d \<and> d \<le> 16 \<and> prem / spot < 0.002) \<or> 16 < d
            \<longrightarrow> calculateGoalBasedScore prem p K spot d = - 1)
       \<and> ((d \<le> 8 \<and> prem / spot < 0.0025) \<or> (8 < d \<and> d \<le> 16 \<and> prem / spot < 0.005) \<or> 16 < d
            \<longrightarrow> calculateGoalBasedScore_srv prem p K spot d = - 1)"
  unfolding calculateGoalBasedScore_def calculateGoalBasedScore_srv_def
  by (intro conjI impI score_gate_fails) (auto split: if_splits)

theorem C6_witness:
  "calculateGoalBasedScore 0.05 20 105 100 5 = - 1
   \<and> calculateGoalBasedScore 0.15 20 105 100 12 = - 1
   \<and> calculateGoalBasedScore 5 20 105 100 20 = - 1
   \<and> calculateGoalBasedScore_srv 0.2 20 105 100 5 = - 1
   \<and> calculateGoalBasedScore_srv 0.4 20 105 100 12 = - 1
   \<and> calculateGoalBasedScore_srv 5 20 105 100 20 = - 1"
  using C6_below_threshold_disqualified [of 100 5 "0.05" 20 105]
    C6_below_threshold_disqualified [of 100 12 "0.15" 20 105]
    C6_below_threshold_disqualified [of 100 20 5 20 105]
    C6_below_threshold_disqualified [of 100 5 "0.2" 20 105]
    C6_below_threshold_disqualified [of 100 12 "0.4" 20 105]
  by simp

text \<open>C7. For a fixed premium, spot above zero and days to expiry, the score does not
  increase with the assignment probability on its scale from 0 to 100, through the base
  score and the penalty above 30 alike.\<close>

theorem C7_score_antimonotone_in_probability:
  assumes "0 < spot" "0 \<le> p1" "p1 \<le> p2" "p2 \<le> 100"
  shows "calculateGoalBasedScore prem p2 K spot d \<le> calculateGoalBasedScore prem p1 K spot d
       \<and> calculateGoalBasedScore_srv prem p2 K spot d
           \<le> calculateGoalBasedScore_srv prem p1 K spot d"
  unfolding calculateGoalBasedScore_def calculateGoalBasedScore_srv_def
  using assms(2,3) by (simp add: goalBasedScore_antimono)

theorem C7_witness:
  "calculateGoalBasedScore 0.3 40 105 100 5 \<le> calculateGoalBasedScore 0.3 10 105 100 5
   \<and> calculateGoalBasedScore_srv 0.3 40 105 100 5 \<le> calculateGoalBasedScore_srv 0.3 10 105 100 5
   \<and> calculateGoalBasedScore 0.3 10 105 100 5 = 3 / 101
   \<and> calculateGoalBasedScore 0.3 40 105 100 5 = 3 / 802"
proof -
  have "calculateGoalBasedScore 0.3 10 105 100 5 = 3 / 101"
    "calculateGoalBasedScore 0.3 40 105 100 5 = 3 / 802"
    by (simp_all add: calculateGoalBasedScore_def goalBasedScore_def Let_def)
  then show ?thesis
    using C7_score_antimonotone_in_probability [of 100 10 40 "0.3" 105 5] by simp
qed

lemma gate_score_pos:
  assumes "0 \<le> p" "0 < wt" "0 < bt"
    and "if d \<le> 8 then wt \<le> prem / cp else d \<le> 16 \<and> bt \<le> prem / cp"
  shows "0 < goalBasedScore wt bt prem p K cp d"
proof -
  have rp: "0 < prem / cp" using assms by (auto split: if_splits)
  have den: "0 < p / 100 + 0.001" using assms(1) by simp
  have base: "0 < prem / cp / (p / 100 + 0.001)" using rp den by (rule divide_pos_pos)
  have pen: "(0::real) < (if p > 30 then 0.5 else 1)" by simp
  have "0 < prem / cp / (p / 100 + 0.001) * (if p > 30 then 0.5 else 1)"
    using base pen by (rule mult_pos_pos)
  then show ?thesis unfolding score_gate_passes [OF assms(4)] .
qed

lemma meets_score_pos:
  assumes "meetsTarget (mapOption cp target n1 n2 c)"
  shows "0 < contractScore cp target n1 n2 c"
proof -
  have p: "0 \<le> enhanced (contractProbs cp target n1 c) * 100"
    using enhanced_bounds by (simp add: contractProbs_def Let_def)
  define rp where "rp = contractPremium c / cp"
  have "(contractDays target n2 \<le> 8 \<and> (if contractPremium c > 0 then rp * 100 else 0) \<ge> 0.1)
        \<or> (contractDays target n2 \<le> 16 \<and> (if contractPremium c > 0 then rp * 100 else 0) \<ge> 0.2)"
    using assms unfolding mapOption_meetsTarget Let_def rp_def .
  then have "if contractDays target n2 \<le> 8 then 0.001 \<le> rp
             else contractDays target n2 \<le> 16 \<and> 0.002 \<le> rp"
    by (cases "contractPremium c > 0") (auto split: if_splits)
  then have gate: "if contractDays target n2 \<le> 8 then 0.001 \<le> contractPremium c / cp
              else contractDays target n2 \<le> 16 \<and> 0.002 \<le> contractPremium c / cp"
    unfolding rp_def .
  show ?thesis
    unfolding contractScore_def calculateGoalBasedScore_def
    by (rule gate_score_pos [OF p _ _ gate]) simp_all
qed

lemma meets_score_pos_srv:
  assumes "meetsTarget (mapOption_srv cp target n1 n2 c)"
  shows "0 < contractScore_srv cp target n1 n2 c"
proof -
  have p: "0 \<le> contractProb_srv cp target n1 c * 100"
    using srv_bounds by (simp add: contractProb_srv_def Let_def)
  define rp where "rp = contractPremium c / cp"
  have "(contractDays target n2 \<le> 8 \<and> (if contractPremium c > 0 then rp * 100 else 0) \<ge> 0.25)
        \<or> (contractDays target n2 \<le> 16 \<and> (if contractPremium c > 0 then rp * 100 else 0) \<ge> 0.5)"
    using assms unfolding mapOption_srv_meetsTarget Let_def rp_def .
  then have "if contractDays target n2 \<le> 8 then 0.0025 \<le> rp
             else contractDays target n2 \<le> 16 \<and> 0.005 \<le> rp"
    by (cases "contractPremium c > 0") (auto split: if_splits)
  then have gate: "if contractDays target n2 \<le> 8 then 0.0025 \<le> contractPremium c / cp
              else contractDays target n2 \<le> 16 \<and> 0.005 \<le> contractPremium c / cp"
    unfolding rp_def .
  show ?thesis
    unfolding contractScore_srv_def calculateGoalBasedScore_srv_def
    by (rule gate_score_pos [OF p _ _ gate]) simp_all
qed

lemma toFixed_nonneg: "0 \<le> x \<Longrightarrow> toFixed x f = Dec False f (nat \<lfloor>x * 10 ^ f + 1 / 2\<rfloor>)"
  by (simp add: toFixed_def)

lemma meets_numeric:
  "meetsTarget (mapOption cp target n1 n2 c)
     \<Longrightarrow> parseFloat (goalScore (mapOption cp target n1 n2 c)) \<noteq> None"
  using meets_score_pos [of cp target n1 n2 c]
  by (simp add: mapOption_goalScore toFixed_nonneg)

lemma meets_numeric_srv:
  "meetsTarget (mapOption_srv cp target n1 n2 c)
     \<Longrightarrow> parseFloat (goalScore (mapOption_srv cp target n1 n2 c)) \<noteq> None"
  using meets_score_pos_srv [of cp target n1 n2 c]
  by (simp add: mapOption_srv_goalScore toFixed_nonneg)

lemma score_key_le:
  assumes "parseFloat s \<noteq> None" "parseFloat t \<noteq> None" "score_key t \<le> score_key s"
  shows "score_le s t"
  using assms by (auto simp: score_key_def score_le_def)

text \<open>What the selector returns for a group, for any \<open>mapOption\<close> whose qualifying
  contracts carry a numeric score.\<close>

lemma selector_sorted_best:
  fixes m :: "int \<Rightarrow> int \<Rightarrow> raw_contract \<Rightarrow> 'a scored_contract_scheme"
    and clock k lo hi target opt
  assumes num: "\<And>n1 n2 c. meetsTarget (m n1 n2 c) \<Longrightarrow> parseFloat (goalScore (m n1 n2 c)) \<noteq> None"
  defines "r \<equiv> fst (selectCalls m clock k lo hi target opt)"
  shows "sorted (map strike (calls r))"
    and "bestOption r = Some b \<Longrightarrow>
           b \<in> set (calls r) \<and> meetsTarget b
           \<and> (\<forall>c\<in>set (calls r). meetsTarget c \<longrightarrow> score_le (goalScore c) (goalScore b))"
proof -
  define allCalls where "allCalls = fst (mapCalls m clock k
            (filter (\<lambda>call. strike call \<ge> lo \<and> strike call \<le> hi)
               (case group_calls opt of None \<Rightarrow> [] | Some cs \<Rightarrow> cs)))"
  define q where "q = filter meetsTarget allCalls"
  have calls_r: "calls r = sort_key strike allCalls"
    unfolding r_def selectCalls_calls sort_by_strike allCalls_def by (rule refl)
  show "sorted (map strike (calls r))" unfolding calls_r by (rule sorted_sort_key)
  have set_calls: "set (calls r) = set allCalls" unfolding calls_r by simp
  have numq: "\<And>x. x \<in> set q \<Longrightarrow> parseFloat (goalScore x) \<noteq> None"
  proof -
    fix x assume "x \<in> set q"
    then have x: "x \<in> set allCalls" "meetsTarget x" by (simp_all add: q_def)
    obtain c n1 n2 where "x = m n1 n2 c"
      using mapCalls_set [OF x(1) [unfolded allCalls_def]] by blast
    then show "parseFloat (goalScore x) \<noteq> None" using num x(2) by simp
  qed
  have sq: "sort_by (\<lambda>a b. minus_nan (parseFloat (goalScore b)) (parseFloat (goalScore a))) q
              = sort_key (\<lambda>c. score_key (goalScore c)) q"
    by (rule sort_by_score) (rule numq)
  have "bestOption r
          = (case sort_by (\<lambda>a b. minus_nan (parseFloat (goalScore b)) (parseFloat (goalScore a))) q
               of [] \<Rightarrow> None | b # _ \<Rightarrow> Some b)"
    unfolding r_def selectCalls_best q_def allCalls_def by (rule refl)
  then have best: "bestOption r
                = (case sort_key (\<lambda>c. score_key (goalScore c)) q of [] \<Rightarrow> None | b # _ \<Rightarrow> Some b)"
    unfolding sq .
  assume "bestOption r = Some b"
  then obtain rest where srt: "sort_key (\<lambda>c. score_key (goalScore c)) q = b # rest"
    unfolding best by (auto split: list.splits)
  have "sorted (map (\<lambda>c. score_key (goalScore c)) (b # rest))"
    using sorted_sort_key [of "\<lambda>c. score_key (goalScore c)" q] unfolding srt .
  then have least: "\<And>c. c \<in> set (b # rest) \<Longrightarrow> score_key (goalScore b) \<le> score_key (goalScore c)"
    by auto
  have setq: "set (b # rest) = set q" using set_sort [of "\<lambda>c. score_key (goalScore c)" q] unfolding srt .
  have bq: "b \<in> set q" using setq by auto
  have "\<And>c. c \<in> set (calls r) \<Longrightarrow> meetsTarget c \<Longrightarrow> score_le (goalScore c) (goalScore b)"
  proof -
    fix c assume "c \<in> set (calls r)" "meetsTarget c"
    then have cq: "c \<in> set q" using set_calls by (simp add: q_def)
    have cin: "c \<in> set (b # rest)" unfolding setq by (rule cq)
    show "score_le (goalScore c) (goalScore b)"
      by (rule score_key_le [OF numq [OF cq] numq [OF bq] least [OF cin]])
  qed
  moreover have "b \<in> set (calls r)" "meetsTarget b" using bq set_calls by (simp_all add: q_def)
  ultimately show "b \<in> set (calls r) \<and> meetsTarget b
           \<and> (\<forall>c\<in>set (calls r). meetsTarget c \<longrightarrow> score_le (goalScore c) (goalScore b))"
    by blast
qed

lemma analyseTargets_results:
  "analyseTargets m fetch clock lo hi targets k = Inr rs \<Longrightarrow> r \<in> set rs
     \<Longrightarrow> \<exists>t k' g. r = fst (selectCalls (m t) clock k' lo hi t g)"
proof (induction targets arbitrary: k rs)
  case Nil
  then show ?case by simp
next
  case (Cons t ts)
  show ?case
  proof (cases "fetch t")
    case (Inl e)
    then show ?thesis using Cons.prems by simp
  next
    case (Inr ch)
    show ?thesis
    proof (cases "first_group ch")
      case None
      then show ?thesis using Cons Inr by simp
    next
      case (Some g)
      obtain res k' where sel: "selectCalls (m t) clock k lo hi t g = (res, k')"
        by (cases "selectCalls (m t) clock k lo hi t g")
      obtain rest where rest: "analyseTargets m fetch clock lo hi ts k' = Inr rest"
        and rs: "rs = res # rest"
        using Cons.prems(1) Inr Some sel by (auto split: sum.splits)
      show ?thesis
      proof (cases "r = res")
        case True
        then have "r = fst (selectCalls (m t) clock k lo hi t g)" using sel by simp
        then show ?thesis by blast
      next
        case False
        then have "r \<in> set rest" using Cons.prems(2) rs by simp
        then show ?thesis using Cons.IH [OF rest] by blast
      qed
    qed
  qed
qed

lemma optionsWeeks_Json:
  assumes "optionsWeeks yf today clock symbol = Json a"
  shows "\<exists>exps. res_currentPrice a \<noteq> 0
           \<and> analyseTargets (mapOption (res_currentPrice a)) (optionsAt yf symbol) clock
                (res_currentPrice a * 1.001) (res_currentPrice a * 1.10)
                (nextTargets today exps) 0 = Inr (res_expirations a)"
  using assms unfolding optionsWeeks_def Let_def
  by (auto simp: truthy_def or_else_def split: if_splits sum.splits option.splits)

lemma optionsWeeks_srv_Json:
  assumes "optionsWeeks_srv yf clock symbol = Json a"
  shows "\<exists>exps. res_currentPrice a \<noteq> 0
           \<and> analyseTargets (mapOption_srv (res_currentPrice a)) (optionsAt yf symbol) clock
                (res_currentPrice a * 1.001) (res_currentPrice a * 1.10)
                (weekTargets (clock 0) exps) 1 = Inr (res_expirations a)"
  using assms unfolding optionsWeeks_srv_def Let_def
  by (auto simp: truthy_def or_else_def split: if_splits sum.splits option.splits)

lemma optionsWeeks_succeeds:
  assumes "symbol \<noteq> []" "quoteSummary yf symbol = Inr (Some price)" "price \<noteq> 0"
    and "expirationDates yf symbol = Inr exps" "exps \<noteq> []"
    and "analyseTargets (mapOption price) (optionsAt yf symbol) clock (price * 1.001)
           (price * 1.10) (nextTargets today exps) 0 = Inr rs"
  shows "optionsWeeks yf today clock symbol
       = Json \<lparr>res_symbol = symbol, res_currentPrice = price,
               res_otmRange = (price * 1.001, price * 1.10), res_expirations = rs\<rparr>"
  using assms unfolding optionsWeeks_def Let_def
  by (simp add: truthy_def or_else_def)

lemma optionsWeeks_srv_succeeds:
  assumes "symbol \<noteq> []" "quoteSummary yf symbol = Inr (Some price)" "price \<noteq> 0"
    and "expirationDates yf symbol = Inr exps" "exps \<noteq> []"
    and "analyseTargets (mapOption_srv price) (optionsAt yf symbol) clock (price * 1.001)
           (price * 1.10) (weekTargets (clock 0) exps) 1 = Inr rs"
  shows "optionsWeeks_srv yf clock symbol
       = Json \<lparr>res_symbol = symbol, res_currentPrice = price,
               res_otmRange = (price * 1.001, price * 1.10), res_expirations = rs\<rparr>"
  using assms unfolding optionsWeeks_srv_def Let_def
  by (simp add: truthy_def or_else_def)

lemma selector_members:
  assumes "x \<in> set (calls (fst (selectCalls m clock k lo hi target opt)))"
  shows "\<exists>c n1 n2. x = m n1 n2 c \<and> lo \<le> strike c \<and> strike c \<le> hi"
proof -
  have "x \<in> set (fst (mapCalls m clock k
            (filter (\<lambda>call. strike call \<ge> lo \<and> strike call \<le> hi)
               (case group_calls opt of None \<Rightarrow> [] | Some cs \<Rightarrow> cs))))"
    using assms unfolding selectCalls_calls sort_by_strike by simp
  from mapCalls_set [OF this]
  obtain c n1 n2 where "c \<in> set (filter (\<lambda>call. strike call \<ge> lo \<and> strike call \<le> hi)
               (case group_calls opt of None \<Rightarrow> [] | Some cs \<Rightarrow> cs))" "x = m n1 n2 c"
    by blast
  then show ?thesis by auto
qed

lemma published_score_shape:
  assumes "0 < cp"
  shows "goalScore (mapOption cp t n1 n2 c) = NA
       \<or> (\<exists>n. goalScore (mapOption cp t n1 n2 c) = Dec False 3 n)"
proof (cases "0 < contractScore cp t n1 n2 c")
  case True
  then show ?thesis by (simp add: mapOption_goalScore toFixed_nonneg)
next
  case False
  show ?thesis
  proof (cases "contractPremium c > 0 \<and> enhanced (contractProbs cp t n1 c) > 0")
    case True
    then have nn: "0 \<le> ((contractPremium c / cp) * 100) / (enhanced (contractProbs cp t n1 c) * 100)"
      using assms by simp
    have "goalScore (mapOption cp t n1 n2 c)
            = toFixed (((contractPremium c / cp) * 100) / (enhanced (contractProbs cp t n1 c) * 100)) 3"
      using False True by (simp add: mapOption_goalScore mapOption_enhancedRatio)
    then show ?thesis unfolding toFixed_nonneg [OF nn] by blast
  next
    case F: False
    then show ?thesis using False by (auto simp: mapOption_goalScore mapOption_enhancedRatio)
  qed
qed

lemma published_score_shape_srv:
  assumes "0 < cp"
  shows "goalScore (mapOption_srv cp t n1 n2 c) = NA
       \<or> (\<exists>n. goalScore (mapOption_srv cp t n1 n2 c) = Dec False 3 n)"
proof (cases "0 < contractScore_srv cp t n1 n2 c")
  case True
  then show ?thesis by (simp add: mapOption_srv_goalScore toFixed_nonneg)
next
  case False
  show ?thesis
  proof (cases "contractPremium c > 0 \<and> contractProb_srv cp t n1 c > 0")
    case True
    then have nn: "0 \<le> ((contractPremium c / cp) * 100) / (contractProb_srv cp t n1 c * 100)"
      using assms by simp
    have "goalScore (mapOption_srv cp t n1 n2 c)
            = toFixed (((contractPremium c / cp) * 100) / (contractProb_srv cp t n1 c * 100)) 3"
      using False True by (simp add: mapOption_srv_goalScore mapOption_srv_ratio)
    then show ?thesis unfolding toFixed_nonneg [OF nn] by blast
  next
    case F: False
    then show ?thesis using False by (auto simp: mapOption_srv_goalScore mapOption_srv_ratio)
  qed
qed

lemma shape_not_sentinel:
  assumes "s = NA \<or> (\<exists>n. s = Dec False 3 n)"
  shows "parseFloat s \<noteq> Some (- 1)"
  using assms by auto

lemma api_sorted_best:
  assumes "optionsWeeks yf today clock symbol = Json a" "r \<in> set (res_expirations a)"
  shows "sorted (map strike (calls r))
       \<and> (\<forall>b. bestOption r = Some b \<longrightarrow>
             b \<in> set (calls r) \<and> meetsTarget b
             \<and> (\<forall>c\<in>set (calls r). meetsTarget c \<longrightarrow> score_le (goalScore c) (goalScore b)))"
proof -
  obtain t k g where r: "r = fst (selectCalls (mapOption (res_currentPrice a) t) clock k
      (res_currentPrice a * 1.001) (res_currentPrice a * 1.10) t g)"
    using assms optionsWeeks_Json analyseTargets_results by blast
  have "sorted (map strike (calls r))"
    unfolding r by (rule selector_sorted_best(1)) (rule meets_numeric)
  moreover have "b \<in> set (calls r) \<and> meetsTarget b
             \<and> (\<forall>c\<in>set (calls r). meetsTarget c \<longrightarrow> score_le (goalScore c) (goalScore b))"
    if bo: "bestOption r = Some b" for b
    unfolding r by (rule selector_sorted_best(2)) (erule meets_numeric, rule bo [unfolded r])
  ultimately show ?thesis by blast
qed

lemma srv_sorted_best:
  assumes "optionsWeeks_srv yf clock symbol = Json a" "r \<in> set (res_expirations a)"
  shows "sorted (map strike (calls r))
       \<and> (\<forall>b. bestOption r = Some b \<longrightarrow>
             b \<in> set (calls r) \<and> meetsTarget b
             \<and> (\<forall>c\<in>set (calls r). meetsTarget c \<longrightarrow> score_le (goalScore c) (goalScore b)))"
proof -
  obtain t k g where r: "r = fst (selectCalls (mapOption_srv (res_currentPrice a) t) clock k
      (res_currentPrice a * 1.001) (res_currentPrice a * 1.10) t g)"
    using assms optionsWeeks_srv_Json analyseTargets_results by blast
  have "sorted (map strike (calls r))"
    unfolding r by (rule selector_sorted_best(1)) (rule meets_numeric_srv)
  moreover have "b \<in> set (calls r) \<and> meetsTarget b
             \<and> (\<forall>c\<in>set (calls r). meetsTarget c \<longrightarrow> score_le (goalScore c) (goalScore b))"
    if bo: "bestOption r = Some b" for b
    unfolding r by (rule selector_sorted_best(2)) (erule meets_numeric_srv, rule bo [unfolded r])
  ultimately show ?thesis by blast
qed

text \<open>C4. In every ExpirationResult of a response, the calls are sorted ascending by
  strike, and the best option, when there is one, is one of the calls that meet the
  target, with a published goal score that no other such call exceeds.\<close>

theorem C4_calls_sorted_best_maximal:
  "(optionsWeeks yf today clock symbol = Json a \<longrightarrow>
      (\<forall>r\<in>set (res_expirations a).
         sorted (map strike (calls r))
         \<and> (\<forall>b. bestOption r = Some b \<longrightarrow>
               b \<in> set (calls r) \<and> meetsTarget b
               \<and> (\<forall>c\<in>set (calls r). meetsTarget c \<longrightarrow> score_le (goalScore c) (goalScore b)))))
   \<and> (optionsWeeks_srv yf' clock' symbol' = Json a' \<longrightarrow>
      (\<forall>r\<in>set (res_expirations a').
         sorted (map strike (calls r))
         \<and> (\<forall>b. bestOption r = Some b \<longrightarrow>
               b \<in> set (calls r) \<and> meetsTarget b
               \<and> (\<forall>c\<in>set (calls r). meetsTarget c \<longrightarrow> score_le (goalScore c) (goalScore b)))))"
proof (rule conjI; intro impI ballI)
  fix r assume "optionsWeeks yf today clock symbol = Json a" "r \<in> set (res_expirations a)"
  then show "sorted (map strike (calls r))
         \<and> (\<forall>b. bestOption r = Some b \<longrightarrow>
               b \<in> set (calls r) \<and> meetsTarget b
               \<and> (\<forall>c\<in>set (calls r). meetsTarget c \<longrightarrow> score_le (goalScore c) (goalScore b)))"
    by (rule api_sorted_best)
next
  fix r assume "optionsWeeks_srv yf' clock' symbol' = Json a'" "r \<in> set (res_expirations a')"
  then show "sorted (map strike (calls r))
         \<and> (\<forall>b. bestOption r = Some b \<longrightarrow>
               b \<in> set (calls r) \<and> meetsTarget b
               \<and> (\<forall>c\<in>set (calls r). meetsTarget c \<longrightarrow> score_le (goalScore c) (goalScore b)))"
    by (rule srv_sorted_best)
qed

lemma band_price_pos:
  fixes cp :: real
  assumes "cp \<noteq> 0" "cp * 1.001 \<le> k" "k \<le> cp * 1.10"
  shows "0 < cp"
proof (rule ccontr)
  assume "\<not> 0 < cp"
  then have "cp < 0" using assms(1) by simp
  then have "cp * 1.10 < cp * 1.001" by simp
  then show False using assms(2,3) by simp
qed

lemma api_within_band:
  assumes "optionsWeeks yf today clock symbol = Json a" "r \<in> set (res_expirations a)"
    and x: "x \<in> set (calls r)"
  shows "res_currentPrice a * 1.001 \<le> strike x \<and> strike x \<le> res_currentPrice a * 1.10
       \<and> res_currentPrice a < strike x"
proof -
  obtain exps where ne: "res_currentPrice a \<noteq> 0"
    and an: "analyseTargets (mapOption (res_currentPrice a)) (optionsAt yf symbol) clock
                (res_currentPrice a * 1.001) (res_currentPrice a * 1.10)
                (nextTargets today exps) 0 = Inr (res_expirations a)"
    using optionsWeeks_Json [OF assms(1)] by blast
  obtain t k g where r: "r = fst (selectCalls (mapOption (res_currentPrice a) t) clock k
      (res_currentPrice a * 1.001) (res_currentPrice a * 1.10) t g)"
    using analyseTargets_results [OF an assms(2)] by blast
  obtain c n1 n2 where c: "x = mapOption (res_currentPrice a) t n1 n2 c"
    "res_currentPrice a * 1.001 \<le> strike c" "strike c \<le> res_currentPrice a * 1.10"
    using selector_members [OF x [unfolded r]] by blast
  have "0 < res_currentPrice a" by (rule band_price_pos [OF ne c(2,3)])
  then have "res_currentPrice a < res_currentPrice a * 1.001" by simp
  then show ?thesis using c by (simp add: mapOption_strike)
qed

lemma srv_within_band:
  assumes "optionsWeeks_srv yf clock symbol = Json a" "r \<in> set (res_expirations a)"
    and x: "x \<in> set (calls r)"
  shows "res_currentPrice a * 1.001 \<le> strike x \<and> strike x \<le> res_currentPrice a * 1.10
       \<and> res_currentPrice a < strike x"
proof -
  obtain exps where ne: "res_currentPrice a \<noteq> 0"
    and an: "analyseTargets (mapOption_srv (res_currentPrice a)) (optionsAt yf symbol) clock
                (res_currentPrice a * 1.001) (res_currentPrice a * 1.10)
                (weekTargets (clock 0) exps) 1 = Inr (res_expirations a)"
    using optionsWeeks_srv_Json [OF assms(1)] by blast
  obtain t k g where r: "r = fst (selectCalls (mapOption_srv (res_currentPrice a) t) clock k
      (res_currentPrice a * 1.001) (res_currentPrice a * 1.10) t g)"
    using analyseTargets_results [OF an assms(2)] by blast
  obtain c n1 n2 where c: "x = mapOption_srv (res_currentPrice a) t n1 n2 c"
    "res_currentPrice a * 1.001 \<le> strike c" "strike c \<le> res_currentPrice a * 1.10"
    using selector_members [OF x [unfolded r]] by blast
  have "0 < res_currentPrice a" by (rule band_price_pos [OF ne c(2,3)])
  then have "res_currentPrice a < res_currentPrice a * 1.001" by simp
  then show ?thesis using c by (simp add: mapOption_srv_strike)
qed

text \<open>C5. Every contract in the calls of every ExpirationResult of a response has its
  strike within the band from \<open>spot * 1.001\<close> to \<open>spot * 1.10\<close>, ends included, and
  so strictly above the spot.\<close>

theorem C5_calls_within_band:
  "(optionsWeeks yf today clock symbol = Json a \<longrightarrow>
      (\<forall>r\<in>set (res_expirations a). \<forall>c\<in>set (calls r).
         res_currentPrice a * 1.001 \<le> strike c \<and> strike c \<le> res_currentPrice a * 1.10
         \<and> res_currentPrice a < strike c))
   \<and> (optionsWeeks_srv yf' clock' symbol' = Json a' \<longrightarrow>
      (\<forall>r\<in>set (res_expirations a'). \<forall>c\<in>set (calls r).
         res_currentPrice a' * 1.001 \<le> strike c \<and> strike c \<le> res_currentPrice a' * 1.10
         \<and> res_currentPrice a' < strike c))"
proof (rule conjI; intro impI ballI)
  fix r c assume "optionsWeeks yf today clock symbol = Json a" "r \<in> set (res_expirations a)"
    "c \<in> set (calls r)"
  then show "res_currentPrice a * 1.001 \<le> strike c \<and> strike c \<le> res_currentPrice a * 1.10
         \<and> res_currentPrice a < strike c"
    by (rule api_within_band)
next
  fix r c assume "optionsWeeks_srv yf' clock' symbol' = Json a'" "r \<in> set (res_expirations a')"
    "c \<in> set (calls r)"
  then show "res_currentPrice a' * 1.001 \<le> strike c \<and> strike c \<le> res_currentPrice a' * 1.10
         \<and> res_currentPrice a' < strike c"
    by (rule srv_within_band)
qed

section \<open>The example requests, evaluated\<close>

lemma ex_premium:
  "contractPremium ex_c108 = 0.15" "contractPremium ex_c102 = 0.3"
  "contractPremium ex_c105 = 0.05"
  by (simp_all add: contractPremium_def ex_c108_def ex_c102_def ex_c105_def ex_contract_def
      truthy_def or_else_def number_def)

lemma ex_strike:
  "strike ex_c108 = 108" "strike ex_c102 = 102" "strike ex_c105 = 105" "strike ex_c120 = 120"
  by (simp_all add: ex_c108_def ex_c102_def ex_c105_def ex_c120_def ex_contract_def)

lemma ex_days: "contractDays 0 3600000 = - (1 / 24)"
  by (simp add: contractDays_def)

lemma ex_probs:
  assumes "100 < strike c"
  shows "contractProbs 100 0 3600000 c = \<lparr>original = 0, enhanced = 0\<rparr>"
proof -
  have "real_of_int (0 - 3600000) / (1000 * 3600 * 24 * 365) \<le> 0" by simp
  then show ?thesis using assms unfolding contractProbs_def Let_def by (simp add: expired)
qed

lemma ex_prob_srv:
  assumes "100 < strike c"
  shows "contractProb_srv 100 0 3600000 c = 0"
proof -
  have "real_of_int (0 - 3600000) / (1000 * 3600 * 24 * 365) \<le> 0" by simp
  then show ?thesis using assms unfolding contractProb_srv_def Let_def by (simp add: expired)
qed

lemma ex_score:
  "contractScore 100 0 3600000 3600000 ex_c108 = 1.5"
  "contractScore 100 0 3600000 3600000 ex_c102 = 3"
  "contractScore 100 0 3600000 3600000 ex_c105 = - 1"
  by (simp_all add: contractScore_def ex_probs ex_strike ex_premium ex_days
      calculateGoalBasedScore_def goalBasedScore_def Let_def)

lemma ex_score_srv:
  "contractScore_srv 100 0 3600000 3600000 ex_c108 = - 1"
  "contractScore_srv 100 0 3600000 3600000 ex_c102 = 3"
  "contractScore_srv 100 0 3600000 3600000 ex_c105 = - 1"
  by (simp_all add: contractScore_srv_def ex_prob_srv ex_strike ex_premium ex_days
      calculateGoalBasedScore_srv_def goalBasedScore_def Let_def)

lemma ex_meets:
  "meetsTarget (ex_scored ex_c108)" "meetsTarget (ex_scored ex_c102)"
  "\<not> meetsTarget (ex_scored ex_c105)"
  by (simp_all add: ex_scored_def mapOption_meetsTarget ex_premium ex_days Let_def)

lemma ex_meets_srv:
  "\<not> meetsTarget (ex_scored_srv ex_c108)" "meetsTarget (ex_scored_srv ex_c102)"
  "\<not> meetsTarget (ex_scored_srv ex_c105)"
  by (simp_all add: ex_scored_srv_def mapOption_srv_meetsTarget ex_premium ex_days Let_def)

lemma ex_goalScore:
  "goalScore (ex_scored ex_c108) = Dec False 3 1500"
  "goalScore (ex_scored ex_c102) = Dec False 3 3000"
  "goalScore (ex_scored ex_c105) = NA"
  by (simp_all add: ex_scored_def mapOption_goalScore mapOption_enhancedRatio ex_score
      ex_probs ex_strike ex_premium toFixed_def)

lemma ex_goalScore_srv:
  "goalScore (ex_scored_srv ex_c108) = NA"
  "goalScore (ex_scored_srv ex_c102) = Dec False 3 3000"
  "goalScore (ex_scored_srv ex_c105) = NA"
  by (simp_all add: ex_scored_srv_def mapOption_srv_goalScore mapOption_srv_ratio ex_score_srv
      ex_prob_srv ex_strike ex_premium toFixed_def)

lemma ex_scored_strike:
  "strike (ex_scored c) = strike c" "strike (ex_scored_srv c) = strike c"
  by (simp_all add: ex_scored_def ex_scored_srv_def mapOption_strike mapOption_srv_strike)

lemma ex_all:
  "fst (mapCalls (mapOption 100 0) ex_clock k
          (filter (\<lambda>call. strike call \<ge> 100 * 1.001 \<and> strike call \<le> 100 * 1.10)
             (case group_calls ex_group of None \<Rightarrow> [] | Some cs \<Rightarrow> cs)))
     = [ex_scored ex_c108, ex_scored ex_c102, ex_scored ex_c105]"
  by (simp add: ex_group_def ex_strike ex_clock_def ex_scored_def Let_def split_def)

lemma ex_all_srv:
  "fst (mapCalls (mapOption_srv 100 0) ex_clock k
          (filter (\<lambda>call. strike call \<ge> 100 * 1.001 \<and> strike call \<le> 100 * 1.10)
             (case group_calls ex_group of None \<Rightarrow> [] | Some cs \<Rightarrow> cs)))
     = [ex_scored_srv ex_c108, ex_scored_srv ex_c102, ex_scored_srv ex_c105]"
  by (simp add: ex_group_def ex_strike ex_clock_def ex_scored_srv_def Let_def split_def)

lemma ex_calls:
  "calls ex_result = [ex_scored ex_c102, ex_scored ex_c105, ex_scored ex_c108]"
  unfolding ex_result_def selectCalls_calls sort_by_strike ex_all
  by (simp add: ex_scored_strike ex_strike)

lemma ex_calls_srv:
  "calls ex_result_srv = [ex_scored_srv ex_c102, ex_scored_srv ex_c105, ex_scored_srv ex_c108]"
  unfolding ex_result_srv_def selectCalls_calls sort_by_strike ex_all_srv
  by (simp add: ex_scored_strike ex_strike)

lemma ex_best: "bestOption ex_result = Some (ex_scored ex_c102)"
  unfolding ex_result_def selectCalls_best ex_all
  by (simp add: ex_meets ex_goalScore sort_by_def compare_result_def)

lemma ex_best_srv: "bestOption ex_result_srv = Some (ex_scored_srv ex_c102)"
  unfolding ex_result_srv_def selectCalls_best ex_all_srv
  by (simp add: ex_meets_srv ex_goalScore_srv sort_by_def compare_result_def)

lemma ex_targets: "nextTargets 0 [0] = [0]" "weekTargets 3600000 [0] = [0]"
  by (simp_all add: nextTargets_def weekTargets_def sort_by_def Let_def)

lemma ex_first_group: "first_group (Some \<lparr>underlyingSymbol = s, options = [g]\<rparr>) = Some g"
  "first_group (Some \<lparr>underlyingSymbol = s, options = []\<rparr>) = None"
  by (simp_all add: first_group_def)

lemma ex_response:
  "optionsWeeks ex_yf 0 ex_clock ''AAPL''
     = Json ex_analysis"
  unfolding ex_analysis_def
proof (rule optionsWeeks_succeeds [where exps = "[0]"])
  show "analyseTargets (mapOption 100) (optionsAt ex_yf ''AAPL'') ex_clock (100 * 1.001)
          (100 * 1.10) (nextTargets 0 [0]) 0 = Inr [ex_result]"
    unfolding ex_targets ex_result_def
    by (simp add: ex_yf_def ex_first_group split_def)
qed (simp_all add: ex_yf_def)

lemma ex_response_srv:
  "optionsWeeks_srv ex_yf ex_clock ''AAPL''
     = Json ex_analysis_srv"
  unfolding ex_analysis_srv_def
proof (rule optionsWeeks_srv_succeeds [where exps = "[0]"])
  have "ex_clock 0 = 3600000" by (simp add: ex_clock_def)
  then show "analyseTargets (mapOption_srv 100) (optionsAt ex_yf ''AAPL'') ex_clock (100 * 1.001)
          (100 * 1.10) (weekTargets (ex_clock 0) [0]) 1 = Inr [ex_result_srv]"
    unfolding ex_result_srv_def
    by (simp add: ex_targets ex_yf_def ex_first_group split_def)
qed (simp_all add: ex_yf_def)

lemma ex_analysis_fields:
  "res_expirations ex_analysis = [ex_result]" "res_currentPrice ex_analysis = 100"
  "res_expirations ex_analysis_srv = [ex_result_srv]" "res_currentPrice ex_analysis_srv = 100"
  by (simp_all add: ex_analysis_def ex_analysis_srv_def)

section \<open>The selector on the example\<close>

theorem C4_witness:
  "optionsWeeks ex_yf 0 ex_clock ''AAPL''
     = Json ex_analysis
   \<and> res_expirations ex_analysis = [ex_result]
   \<and> calls ex_result = [ex_scored ex_c102, ex_scored ex_c105, ex_scored ex_c108]
   \<and> sorted (map strike (calls ex_result))
   \<and> bestOption ex_result = Some (ex_scored ex_c102)
   \<and> ex_scored ex_c102 \<in> set (calls ex_result) \<and> meetsTarget (ex_scored ex_c102)
   \<and> ex_scored ex_c108 \<in> set (calls ex_result) \<and> meetsTarget (ex_scored ex_c108)
   \<and> score_le (goalScore (ex_scored ex_c108)) (goalScore (ex_scored ex_c102))
   \<and> optionsWeeks_srv ex_yf ex_clock ''AAPL''
     = Json ex_analysis_srv
   \<and> res_expirations ex_analysis_srv = [ex_result_srv]
   \<and> sorted (map strike (calls ex_result_srv))
   \<and> bestOption ex_result_srv = Some (ex_scored_srv ex_c102)
   \<and> ex_scored_srv ex_c102 \<in> set (calls ex_result_srv) \<and> meetsTarget (ex_scored_srv ex_c102)
   \<and> score_le (goalScore (ex_scored_srv ex_c102)) (goalScore (ex_scored_srv ex_c102))"
proof -
  note inst = C4_calls_sorted_best_maximal [of ex_yf 0 ex_clock "''AAPL''" ex_analysis ex_yf
      ex_clock "''AAPL''" ex_analysis_srv]
  have api: "sorted (map strike (calls ex_result))
         \<and> (\<forall>b. bestOption ex_result = Some b \<longrightarrow>
               b \<in> set (calls ex_result) \<and> meetsTarget b
               \<and> (\<forall>c\<in>set (calls ex_result). meetsTarget c
                     \<longrightarrow> score_le (goalScore c) (goalScore b)))"
    using inst ex_response by (simp add: ex_analysis_fields)
  have srv: "sorted (map strike (calls ex_result_srv))
         \<and> (\<forall>b. bestOption ex_result_srv = Some b \<longrightarrow>
               b \<in> set (calls ex_result_srv) \<and> meetsTarget b
               \<and> (\<forall>c\<in>set (calls ex_result_srv). meetsTarget c
                     \<longrightarrow> score_le (goalScore c) (goalScore b)))"
    using inst ex_response_srv by (simp add: ex_analysis_fields)
  have in108: "ex_scored ex_c108 \<in> set (calls ex_result)" by (simp add: ex_calls)
  have "ex_scored ex_c102 \<in> set (calls ex_result) \<and> meetsTarget (ex_scored ex_c102)
        \<and> score_le (goalScore (ex_scored ex_c108)) (goalScore (ex_scored ex_c102))"
    using api ex_best in108 ex_meets(1) by blast
  moreover have "ex_scored_srv ex_c102 \<in> set (calls ex_result_srv)
        \<and> meetsTarget (ex_scored_srv ex_c102)
        \<and> score_le (goalScore (ex_scored_srv ex_c102)) (goalScore (ex_scored_srv ex_c102))"
    using srv ex_best_srv by blast
  ultimately show ?thesis
    using api srv ex_response ex_response_srv ex_calls ex_best ex_best_srv in108 ex_meets(1)
      ex_analysis_fields
    by blast
qed

theorem C5_witness:
  "optionsWeeks ex_yf 0 ex_clock ''AAPL''
     = Json ex_analysis
   \<and> res_expirations ex_analysis = [ex_result]
   \<and> ex_scored ex_c108 \<in> set (calls ex_result)
   \<and> 100 * 1.001 \<le> strike (ex_scored ex_c108) \<and> strike (ex_scored ex_c108) \<le> 100 * 1.10
   \<and> 100 < strike (ex_scored ex_c108)
   \<and> optionsWeeks_srv ex_yf ex_clock ''AAPL''
     = Json ex_analysis_srv
   \<and> res_expirations ex_analysis_srv = [ex_result_srv]
   \<and> ex_scored_srv ex_c102 \<in> set (calls ex_result_srv)
   \<and> 100 * 1.001 \<le> strike (ex_scored_srv ex_c102)
   \<and> strike (ex_scored_srv ex_c102) \<le> 100 * 1.10
   \<and> ex_c120 \<in> set (the (group_calls ex_group))
   \<and> strike ex_c120 \<notin> strike ` set (calls ex_result)"
proof -
  note inst = C5_calls_within_band [of ex_yf 0 ex_clock "''AAPL''" ex_analysis ex_yf ex_clock
      "''AAPL''" ex_analysis_srv]
  have in108: "ex_scored ex_c108 \<in> set (calls ex_result)" by (simp add: ex_calls)
  have in102: "ex_scored_srv ex_c102 \<in> set (calls ex_result_srv)" by (simp add: ex_calls_srv)
  have "100 * 1.001 \<le> strike (ex_scored ex_c108) \<and> strike (ex_scored ex_c108) \<le> 100 * 1.10
      \<and> 100 < strike (ex_scored ex_c108)"
    using inst ex_response in108 by (simp add: ex_analysis_fields)
  moreover have "100 * 1.001 \<le> strike (ex_scored_srv ex_c102)
      \<and> strike (ex_scored_srv ex_c102) \<le> 100 * 1.10"
    using inst ex_response_srv in102 by (simp add: ex_analysis_fields)
  moreover have "ex_c120 \<in> set (the (group_calls ex_group))" by (simp add: ex_group_def)
  moreover have "strike ex_c120 \<notin> strike ` set (calls ex_result)"
    by (simp add: ex_calls ex_scored_strike ex_strike)
  ultimately show ?thesis
    using ex_response ex_response_srv in108 in102 ex_analysis_fields by blast
qed

section \<open>Targets without contracts\<close>

lemma selectCalls_empty:
  assumes "no_contracts g"
  shows "empty_result (fst (selectCalls m clock k lo hi t g))"
  using assms
  by (auto simp: no_contracts_def empty_result_def selectCalls_def Let_def sort_by_def
      split: option.splits)

lemma loop_emits:
  assumes "\<forall>t. \<exists>ch. fetch t = Inr ch"
  shows "\<exists>rs. analyseTargets m fetch clock lo hi targets k = Inr rs
          \<and> list_all2 (result_for m fetch clock lo hi) rs (filter (has_group fetch) targets)"
proof (induction targets arbitrary: k)
  case Nil
  show ?case by simp
next
  case (Cons t ts)
  obtain ch where ch: "fetch t = Inr ch" using assms by auto
  show ?case
  proof (cases "first_group ch")
    case None
    then have "\<not> has_group fetch t" by (simp add: has_group_def group_at_def ch)
    then show ?thesis using Cons.IH [of k] ch None by simp
  next
    case (Some g)
    obtain res k' where sel: "selectCalls (m t) clock k lo hi t g = (res, k')"
      by (cases "selectCalls (m t) clock k lo hi t g")
    obtain rest where rest: "analyseTargets m fetch clock lo hi ts k' = Inr rest"
      and all2: "list_all2 (result_for m fetch clock lo hi) rest (filter (has_group fetch) ts)"
      using Cons.IH [of k'] by blast
    have res: "res = fst (selectCalls (m t) clock k lo hi t g)" using sel by simp
    have g: "group_at fetch t = Some g" by (simp add: group_at_def ch Some)
    have "no_contracts g \<longrightarrow> empty_result res" unfolding res by (simp add: selectCalls_empty)
    then have rf: "result_for m fetch clock lo hi res t"
      unfolding result_for_def using g res by blast
    have "analyseTargets m fetch clock lo hi (t # ts) k = Inr (res # rest)"
      using ch Some sel rest by simp
    moreover have "has_group fetch t" by (simp add: has_group_def g)
    ultimately show ?thesis using all2 rf by simp
  qed
qed

text \<open>C8, as amended. When no call of the provider throws, the request succeeds, and
  its response holds, in the order of the targets, one ExpirationResult for each target
  whose chain has a group of contracts; that result is empty (no calls, no best option,
  \<open>hasQualifyingOptions\<close> false) when the group has no contracts. A target whose chain has
  no group is passed over: the response has no result for it.\<close>

theorem C8_targets_without_group_skipped:
  assumes "symbol \<noteq> []" "quoteSummary yf symbol = Inr (Some price)" "price \<noteq> 0"
    and "expirationDates yf symbol = Inr exps" "exps \<noteq> []"
    and "\<forall>t. \<exists>ch. optionsAt yf symbol t = Inr ch"
  shows "(\<exists>a. optionsWeeks yf today clock symbol = Json a
            \<and> list_all2 (result_for (mapOption price) (optionsAt yf symbol) clock
                           (price * 1.001) (price * 1.10))
                 (res_expirations a)
                 (filter (has_group (optionsAt yf symbol)) (nextTargets today exps)))
       \<and> (\<exists>a. optionsWeeks_srv yf clock symbol = Json a
            \<and> list_all2 (result_for (mapOption_srv price) (optionsAt yf symbol) clock
                           (price * 1.001) (price * 1.10))
                 (res_expirations a)
                 (filter (has_group (optionsAt yf symbol)) (weekTargets (clock 0) exps)))"
proof (rule conjI)
  obtain rs where rs: "analyseTargets (mapOption price) (optionsAt yf symbol) clock
        (price * 1.001) (price * 1.10) (nextTargets today exps) 0 = Inr rs"
    and all2: "list_all2 (result_for (mapOption price) (optionsAt yf symbol) clock
                   (price * 1.001) (price * 1.10)) rs
                 (filter (has_group (optionsAt yf symbol)) (nextTargets today exps))"
    using loop_emits [OF assms(6)] by blast
  show "\<exists>a. optionsWeeks yf today clock symbol = Json a
            \<and> list_all2 (result_for (mapOption price) (optionsAt yf symbol) clock
                           (price * 1.001) (price * 1.10))
                 (res_expirations a)
                 (filter (has_group (optionsAt yf symbol)) (nextTargets today exps))"
    unfolding optionsWeeks_succeeds [OF assms(1-5) rs] using all2 by simp
next
  obtain rs where rs: "analyseTargets (mapOption_srv price) (optionsAt yf symbol) clock
        (price * 1.001) (price * 1.10) (weekTargets (clock 0) exps) 1 = Inr rs"
    and all2: "list_all2 (result_for (mapOption_srv price) (optionsAt yf symbol) clock
                   (price * 1.001) (price * 1.10)) rs
                 (filter (has_group (optionsAt yf symbol)) (weekTargets (clock 0) exps))"
    using loop_emits [OF assms(6)] by blast
  show "\<exists>a. optionsWeeks_srv yf clock symbol = Json a
            \<and> list_all2 (result_for (mapOption_srv price) (optionsAt yf symbol) clock
                           (price * 1.001) (price * 1.10))
                 (res_expirations a)
                 (filter (has_group (optionsAt yf symbol)) (weekTargets (clock 0) exps))"
    unfolding optionsWeeks_srv_succeeds [OF assms(1-5) rs] using all2 by simp
qed

lemma ex_partial_targets:
  "nextTargets 0 [0, 86400000] = [0, 86400000]"
  "weekTargets (ex_clock 0) [0, 86400000] = [86400000]"
  by (simp_all add: nextTargets_def weekTargets_def sort_by_def compare_result_def Let_def
      ex_clock_def)

lemma ex_partial_groups:
  "group_at (optionsAt ex_yf_partial ''AAPL'') 0 = None"
  "group_at (optionsAt ex_yf_partial ''AAPL'') 86400000
     = Some \<lparr>expirationDate = Some 86400000, group_calls = None\<rparr>"
  by (simp_all add: group_at_def ex_yf_partial_def first_group_def)

lemma ex_partial_result:
  assumes "result_for m (optionsAt ex_yf_partial ''AAPL'') clock lo hi r 86400000"
  shows "expiration r = 86400 \<and> empty_result r"
proof -
  obtain g k where g: "group_at (optionsAt ex_yf_partial ''AAPL'') 86400000 = Some g"
    and r: "r = fst (selectCalls (m 86400000) clock k lo hi 86400000 g)"
    and e: "no_contracts g \<longrightarrow> empty_result r"
    using assms unfolding result_for_def by blast
  have g': "g = \<lparr>expirationDate = Some 86400000, group_calls = None\<rparr>"
    using g by (simp add: ex_partial_groups)
  have "no_contracts g" by (simp add: g' no_contracts_def)
  moreover have "expiration r = 86400"
    unfolding r g' by (simp add: selectCalls_def Let_def split_def)
  ultimately show ?thesis using e by blast
qed

theorem C8_witness:
  "nextTargets 0 [0, 86400000] = [0, 86400000]
   \<and> \<not> has_group (optionsAt ex_yf_partial ''AAPL'') 0
   \<and> has_group (optionsAt ex_yf_partial ''AAPL'') 86400000
   \<and> (\<exists>a r. optionsWeeks ex_yf_partial 0 ex_clock ''AAPL'' = Json a
          \<and> res_expirations a = [r] \<and> expiration r = 86400 \<and> empty_result r)
   \<and> (\<exists>a r. optionsWeeks_srv ex_yf_partial ex_clock ''AAPL'' = Json a
          \<and> res_expirations a = [r] \<and> expiration r = 86400 \<and> empty_result r)"
proof -
  have hg: "\<not> has_group (optionsAt ex_yf_partial ''AAPL'') 0"
    "has_group (optionsAt ex_yf_partial ''AAPL'') 86400000"
    by (simp_all add: has_group_def ex_partial_groups)
  have h: "''AAPL'' \<noteq> []" "quoteSummary ex_yf_partial ''AAPL'' = Inr (Some 100)"
    "(100::real) \<noteq> 0" "expirationDates ex_yf_partial ''AAPL'' = Inr [0, 86400000]"
    "[0, 86400000 :: int] \<noteq> []" "\<forall>t. \<exists>ch. optionsAt ex_yf_partial ''AAPL'' t = Inr ch"
    by (simp_all add: ex_yf_partial_def)
  note inst = C8_targets_without_group_skipped [OF h, of 0 ex_clock, unfolded ex_partial_targets]
  obtain a where a: "optionsWeeks ex_yf_partial 0 ex_clock ''AAPL'' = Json a"
    and la: "list_all2 (result_for (mapOption 100) (optionsAt ex_yf_partial ''AAPL'') ex_clock
                 (100 * 1.001) (100 * 1.10)) (res_expirations a) [86400000]"
    using inst hg by auto
  obtain r where r: "res_expirations a = [r]"
    and rf: "result_for (mapOption 100) (optionsAt ex_yf_partial ''AAPL'') ex_clock
                 (100 * 1.001) (100 * 1.10) r 86400000"
    using la by (auto simp: list_all2_Cons2)
  obtain a' where a': "optionsWeeks_srv ex_yf_partial ex_clock ''AAPL'' = Json a'"
    and la': "list_all2 (result_for (mapOption_srv 100) (optionsAt ex_yf_partial ''AAPL'')
                 ex_clock (100 * 1.001) (100 * 1.10)) (res_expirations a') [86400000]"
    using inst hg by auto
  obtain r' where r': "res_expirations a' = [r']"
    and rf': "result_for (mapOption_srv 100) (optionsAt ex_yf_partial ''AAPL'') ex_clock
                 (100 * 1.001) (100 * 1.10) r' 86400000"
    using la' by (auto simp: list_all2_Cons2)
  show ?thesis
    using ex_partial_targets(1) hg a r ex_partial_result [OF rf] a' r' ex_partial_result [OF rf']
    by blast
qed

text \<open>C8 as the specification states it fails: for one target date whose chain has no
  group of contracts the request succeeds with no ExpirationResult at all, where the
  specification has an empty one.\<close>

theorem C8_counterexample:
  "nextTargets 0 [0] = [0]
   \<and> optionsAt ex_yf_nogroup ''AAPL'' 0
       = Inr (Some \<lparr>underlyingSymbol = ''AAPL'', options = []\<rparr>)
   \<and> optionsWeeks ex_yf_nogroup 0 ex_clock ''AAPL''
       = Json \<lparr>res_symbol = ''AAPL'', res_currentPrice = 100,
               res_otmRange = (100 * 1.001, 100 * 1.10), res_expirations = []\<rparr>"
proof -
  have "optionsWeeks ex_yf_nogroup 0 ex_clock ''AAPL''
       = Json \<lparr>res_symbol = ''AAPL'', res_currentPrice = 100,
               res_otmRange = (100 * 1.001, 100 * 1.10), res_expirations = []\<rparr>"
  proof (rule optionsWeeks_succeeds [where exps = "[0]"])
    show "analyseTargets (mapOption 100) (optionsAt ex_yf_nogroup ''AAPL'') ex_clock
            (100 * 1.001) (100 * 1.10) (nextTargets 0 [0]) 0 = Inr []"
      unfolding ex_targets by (simp add: ex_yf_nogroup_def ex_first_group)
  qed (simp_all add: ex_yf_nogroup_def)
  then show ?thesis by (simp add: ex_targets ex_yf_nogroup_def)
qed

section \<open>The published score\<close>

lemma api_not_sentinel:
  assumes "optionsWeeks yf today clock symbol = Json a" "r \<in> set (res_expirations a)"
    and x: "x \<in> set (calls r)"
  shows "parseFloat (goalScore x) \<noteq> Some (- 1)"
proof -
  obtain exps where ne: "res_currentPrice a \<noteq> 0"
    and an: "analyseTargets (mapOption (res_currentPrice a)) (optionsAt yf symbol) clock
                (res_currentPrice a * 1.001) (res_currentPrice a * 1.10)
                (nextTargets today exps) 0 = Inr (res_expirations a)"
    using optionsWeeks_Json [OF assms(1)] by blast
  obtain t k g where r: "r = fst (selectCalls (mapOption (res_currentPrice a) t) clock k
      (res_currentPrice a * 1.001) (res_currentPrice a * 1.10) t g)"
    using analyseTargets_results [OF an assms(2)] by blast
  obtain c n1 n2 where c: "x = mapOption (res_currentPrice a) t n1 n2 c"
    "res_currentPrice a * 1.001 \<le> strike c" "strike c \<le> res_currentPrice a * 1.10"
    using selector_members [OF x [unfolded r]] by blast
  have "0 < res_currentPrice a" by (rule band_price_pos [OF ne c(2,3)])
  then show ?thesis unfolding c(1) by (intro shape_not_sentinel published_score_shape)
qed

lemma srv_not_sentinel:
  assumes "optionsWeeks_srv yf clock symbol = Json a" "r \<in> set (res_expirations a)"
    and x: "x \<in> set (calls r)"
  shows "parseFloat (goalScore x) \<noteq> Some (- 1)"
proof -
  obtain exps where ne: "res_currentPrice a \<noteq> 0"
    and an: "analyseTargets (mapOption_srv (res_currentPrice a)) (optionsAt yf symbol) clock
                (res_currentPrice a * 1.001) (res_currentPrice a * 1.10)
                (weekTargets (clock 0) exps) 1 = Inr (res_expirations a)"
    using optionsWeeks_srv_Json [OF assms(1)] by blast
  obtain t k g where r: "r = fst (selectCalls (mapOption_srv (res_currentPrice a) t) clock k
      (res_currentPrice a * 1.001) (res_currentPrice a * 1.10) t g)"
    using analyseTargets_results [OF an assms(2)] by blast
  obtain c n1 n2 where c: "x = mapOption_srv (res_currentPrice a) t n1 n2 c"
    "res_currentPrice a * 1.001 \<le> strike c" "strike c \<le> res_currentPrice a * 1.10"
    using selector_members [OF x [unfolded r]] by blast
  have "0 < res_currentPrice a" by (rule band_price_pos [OF ne c(2,3)])
  then show ?thesis unfolding c(1) by (intro shape_not_sentinel published_score_shape_srv)
qed

text \<open>C10. For a contract whose score is not above zero (the sentinel \<open>-1\<close> among
  them) the published \<open>goalScore\<close> is the return/assignment ratio of the script: the
  \<open>toFixed(3)\<close> text of the ratio, or \<open>'N/A'\<close> when the premium or the probability is
  not above zero. No published \<open>goalScore\<close>, of \<open>mapOption\<close> at a spot above zero or
  of any contract in a response, reads as \<open>-1\<close>.\<close>

theorem C10_sentinel_not_published:
  "(0 < cp \<and> \<not> 0 < contractScore cp t n1 n2 c \<longrightarrow>
      goalScore (mapOption cp t n1 n2 c) = returnAssignmentRatioEnhanced (mapOption cp t n1 n2 c)
      \<and> goalScore (mapOption cp t n1 n2 c)
          = (if contractPremium c > 0 \<and> enhanced (contractProbs cp t n1 c) > 0
             then toFixed (((contractPremium c / cp) * 100)
                             / (enhanced (contractProbs cp t n1 c) * 100)) 3
             else NA)
      \<and> parseFloat (goalScore (mapOption cp t n1 n2 c)) \<noteq> Some (- 1))
   \<and> (0 < cp \<and> \<not> 0 < contractScore_srv cp t n1 n2 c \<longrightarrow>
      goalScore (mapOption_srv cp t n1 n2 c) = returnAssignmentRatio (mapOption_srv cp t n1 n2 c)
      \<and> goalScore (mapOption_srv cp t n1 n2 c)
          = (if contractPremium c > 0 \<and> contractProb_srv cp t n1 c > 0
             then toFixed (((contractPremium c / cp) * 100)
                             / (contractProb_srv cp t n1 c * 100)) 3
             else NA)
      \<and> parseFloat (goalScore (mapOption_srv cp t n1 n2 c)) \<noteq> Some (- 1))
   \<and> (optionsWeeks yf today clock symbol = Json a \<longrightarrow>
        (\<forall>r\<in>set (res_expirations a). \<forall>x\<in>set (calls r).
           parseFloat (goalScore x) \<noteq> Some (- 1)))
   \<and> (optionsWeeks_srv yf' clock' symbol' = Json a' \<longrightarrow>
        (\<forall>r\<in>set (res_expirations a'). \<forall>x\<in>set (calls r).
           parseFloat (goalScore x) \<noteq> Some (- 1)))"
proof (intro conjI impI ballI)
  assume h: "0 < cp \<and> \<not> 0 < contractScore cp t n1 n2 c"
  then show "goalScore (mapOption cp t n1 n2 c)
               = returnAssignmentRatioEnhanced (mapOption cp t n1 n2 c)"
    by (simp add: mapOption_goalScore)
  then show "goalScore (mapOption cp t n1 n2 c)
          = (if contractPremium c > 0 \<and> enhanced (contractProbs cp t n1 c) > 0
             then toFixed (((contractPremium c / cp) * 100)
                             / (enhanced (contractProbs cp t n1 c) * 100)) 3
             else NA)"
    by (simp only: mapOption_enhancedRatio)
  show "parseFloat (goalScore (mapOption cp t n1 n2 c)) \<noteq> Some (- 1)"
    using h by (intro shape_not_sentinel published_score_shape) simp
next
  assume h: "0 < cp \<and> \<not> 0 < contractScore_srv cp t n1 n2 c"
  then show "goalScore (mapOption_srv cp t n1 n2 c)
               = returnAssignmentRatio (mapOption_srv cp t n1 n2 c)"
    by (simp add: mapOption_srv_goalScore)
  then show "goalScore (mapOption_srv cp t n1 n2 c)
          = (if contractPremium c > 0 \<and> contractProb_srv cp t n1 c > 0
             then toFixed (((contractPremium c / cp) * 100)
                             / (contractProb_srv cp t n1 c * 100)) 3
             else NA)"
    by (simp only: mapOption_srv_ratio)
  show "parseFloat (goalScore (mapOption_srv cp t n1 n2 c)) \<noteq> Some (- 1)"
    using h by (intro shape_not_sentinel published_score_shape_srv) simp
next
  fix r x assume "optionsWeeks yf today clock symbol = Json a" "r \<in> set (res_expirations a)"
    "x \<in> set (calls r)"
  then show "parseFloat (goalScore x) \<noteq> Some (- 1)" by (rule api_not_sentinel)
next
  fix r x assume "optionsWeeks_srv yf' clock' symbol' = Json a'" "r \<in> set (res_expirations a')"
    "x \<in> set (calls r)"
  then show "parseFloat (goalScore x) \<noteq> Some (- 1)" by (rule srv_not_sentinel)
qed

lemma ex_c95_values:
  "contractPremium ex_c95 = 0.05" "strike ex_c95 = 95"
  "contractProbs 100 0 3600000 ex_c95 = \<lparr>original = 1, enhanced = 1\<rparr>"
  "contractProb_srv 100 0 3600000 ex_c95 = 1"
proof -
  show p: "contractPremium ex_c95 = 0.05" and k: "strike ex_c95 = 95"
    by (simp_all add: contractPremium_def ex_c95_def ex_contract_def truthy_def or_else_def
        number_def)
  have t: "real_of_int (0 - 3600000) / (1000 * 3600 * 24 * 365) \<le> 0" by simp
  show "contractProbs 100 0 3600000 ex_c95 = \<lparr>original = 1, enhanced = 1\<rparr>"
    using t unfolding contractProbs_def Let_def by (simp add: expired k)
  show "contractProb_srv 100 0 3600000 ex_c95 = 1"
    using t unfolding contractProb_srv_def Let_def by (simp add: expired k)
qed

lemma ex_c95_score:
  "contractScore 100 0 3600000 3600000 ex_c95 = - 1"
  "contractScore_srv 100 0 3600000 3600000 ex_c95 = - 1"
  by (simp_all add: contractScore_def contractScore_srv_def ex_c95_values ex_days
      calculateGoalBasedScore_def calculateGoalBasedScore_srv_def goalBasedScore_def Let_def)

theorem C10_witness:
  "contractScore 100 0 3600000 3600000 ex_c95 = - 1
   \<and> goalScore (ex_scored ex_c95) = returnAssignmentRatioEnhanced (ex_scored ex_c95)
   \<and> goalScore (ex_scored ex_c95) = Dec False 3 1
   \<and> contractScore 100 0 3600000 3600000 ex_c105 = - 1
   \<and> goalScore (ex_scored ex_c105) = NA
   \<and> contractScore_srv 100 0 3600000 3600000 ex_c95 = - 1
   \<and> goalScore (ex_scored_srv ex_c95) = returnAssignmentRatio (ex_scored_srv ex_c95)
   \<and> goalScore (ex_scored_srv ex_c95) = Dec False 3 1
   \<and> optionsWeeks ex_yf 0 ex_clock ''AAPL'' = Json ex_analysis
   \<and> ex_scored ex_c105 \<in> set (calls ex_result)
   \<and> parseFloat (goalScore (ex_scored ex_c105)) \<noteq> Some (- 1)
   \<and> optionsWeeks_srv ex_yf ex_clock ''AAPL'' = Json ex_analysis_srv
   \<and> ex_scored_srv ex_c108 \<in> set (calls ex_result_srv)
   \<and> parseFloat (goalScore (ex_scored_srv ex_c108)) \<noteq> Some (- 1)"
proof -
  note inst95 = C10_sentinel_not_published [of 100 0 3600000 3600000 ex_c95 ex_yf 0 ex_clock
      "''AAPL''" ex_analysis ex_yf ex_clock "''AAPL''" ex_analysis_srv]
  note inst105 = C10_sentinel_not_published [of 100 0 3600000 3600000 ex_c105 ex_yf 0 ex_clock
      "''AAPL''" ex_analysis ex_yf ex_clock "''AAPL''" ex_analysis_srv]
  have h95: "0 < (100::real) \<and> \<not> 0 < contractScore 100 0 3600000 3600000 ex_c95"
    "0 < (100::real) \<and> \<not> 0 < contractScore_srv 100 0 3600000 3600000 ex_c95"
    by (simp_all add: ex_c95_score)
  have h105: "0 < (100::real) \<and> \<not> 0 < contractScore 100 0 3600000 3600000 ex_c105"
    by (simp add: ex_score)
  have a1: "goalScore (ex_scored ex_c95) = returnAssignmentRatioEnhanced (ex_scored ex_c95)"
    unfolding ex_scored_def using inst95 h95(1) by blast
  have "goalScore (ex_scored ex_c95)
          = (if contractPremium ex_c95 > 0 \<and> enhanced (contractProbs 100 0 3600000 ex_c95) > 0
             then toFixed (((contractPremium ex_c95 / 100) * 100)
                             / (enhanced (contractProbs 100 0 3600000 ex_c95) * 100)) 3
             else NA)"
    unfolding ex_scored_def using inst95 h95(1) by blast
  then have a2: "goalScore (ex_scored ex_c95) = Dec False 3 1"
    by (simp add: ex_c95_values toFixed_def)
  have b1: "goalScore (ex_scored_srv ex_c95) = returnAssignmentRatio (ex_scored_srv ex_c95)"
    unfolding ex_scored_srv_def using inst95 h95(2) by blast
  have "goalScore (ex_scored_srv ex_c95)
          = (if contractPremium ex_c95 > 0 \<and> contractProb_srv 100 0 3600000 ex_c95 > 0
             then toFixed (((contractPremium ex_c95 / 100) * 100)
                             / (contractProb_srv 100 0 3600000 ex_c95 * 100)) 3
             else NA)"
    unfolding ex_scored_srv_def using inst95 h95(2) by blast
  then have b2: "goalScore (ex_scored_srv ex_c95) = Dec False 3 1"
    by (simp add: ex_c95_values toFixed_def)
  have "goalScore (ex_scored ex_c105)
          = (if contractPremium ex_c105 > 0 \<and> enhanced (contractProbs 100 0 3600000 ex_c105) > 0
             then toFixed (((contractPremium ex_c105 / 100) * 100)
                             / (enhanced (contractProbs 100 0 3600000 ex_c105) * 100)) 3
             else NA)"
    unfolding ex_scored_def using inst105 h105 by blast
  then have c: "goalScore (ex_scored ex_c105) = NA"
    by (simp add: ex_premium ex_probs ex_strike)
  have in105: "ex_scored ex_c105 \<in> set (calls ex_result)" by (simp add: ex_calls)
  have in108: "ex_scored_srv ex_c108 \<in> set (calls ex_result_srv)" by (simp add: ex_calls_srv)
  have d: "parseFloat (goalScore (ex_scored ex_c105)) \<noteq> Some (- 1)"
    using inst95 ex_response in105 by (simp add: ex_analysis_fields)
  have e: "parseFloat (goalScore (ex_scored_srv ex_c108)) \<noteq> Some (- 1)"
    using inst95 ex_response_srv in108 by (simp add: ex_analysis_fields)
  show ?thesis
    using a1 a2 b1 b2 c d e in105 in108 ex_c95_score ex_score(3) ex_response ex_response_srv
    by blast
qed

end
